theory Spec2Isabelle
  imports Complex_Main
begin

section \<open>Strings of the scoring engine\<close>

text \<open>
  The scoring engine of \<^verbatim>\<open>src/services/subscriptionService.ts\<close> (the resume service
  class, lines 868--1536) works on JavaScript strings. A string is modelled as a HOL
  \<^typ>\<open>string\<close>; a \<^typ>\<open>char\<close> stands for the UTF-16 code unit with the same number, so
  the model covers the strings over U+0000..U+00FF (ASCII and Latin-1). On this range
  \<^verbatim>\<open>toLowerCase\<close> maps A--Z and the Latin-1 capitals U+00C0..U+00DE (without the
  multiplication sign U+00D7) to the code unit 32 above and leaves every other code unit
  alone; the class \<^verbatim>\<open>\w\<close> is \<^verbatim>\<open>[A-Za-z0-9_]\<close>; the class \<^verbatim>\<open>\s\<close> is
  TAB, LF, VT, FF, CR, space and the no-break space U+00A0.
\<close>

definition code :: "char \<Rightarrow> nat" where
  "code c = of_char c"

definition isAsciiUpper :: "char \<Rightarrow> bool" where
  "isAsciiUpper c = (65 \<le> code c \<and> code c \<le> 90)"

definition isAsciiLower :: "char \<Rightarrow> bool" where
  "isAsciiLower c = (97 \<le> code c \<and> code c \<le> 122)"

definition isDigit :: "char \<Rightarrow> bool" where
  "isDigit c = (48 \<le> code c \<and> code c \<le> 57)"

definition isLatin1Upper :: "char \<Rightarrow> bool" where
  "isLatin1Upper c = (192 \<le> code c \<and> code c \<le> 222 \<and> code c \<noteq> 215)"

definition toLowerChar :: "char \<Rightarrow> char" where
  "toLowerChar c =
     (if isAsciiUpper c \<or> isLatin1Upper c then char_of (code c + 32) else c)"

definition toLowerCase :: "string \<Rightarrow> string" where
  "toLowerCase s = map toLowerChar s"

text \<open>The regular-expression classes \<^verbatim>\<open>\w\<close> and \<^verbatim>\<open>\s\<close>.\<close>

definition isWordChar :: "char \<Rightarrow> bool" where
  "isWordChar c = (isAsciiUpper c \<or> isAsciiLower c \<or> isDigit c \<or> c = CHR ''_'')"

definition isSpace :: "char \<Rightarrow> bool" where
  "isSpace c = (code c = 9 \<or> code c = 10 \<or> code c = 11 \<or> code c = 12 \<or> code c = 13
                \<or> code c = 32 \<or> code c = 160)"

text \<open>\<^verbatim>\<open>String.prototype.trim\<close>: the white space it strips is the class \<^verbatim>\<open>\s\<close>.\<close>

definition trim :: "string \<Rightarrow> string" where
  "trim s = rev (dropWhile isSpace (rev (dropWhile isSpace s)))"

text \<open>\<^verbatim>\<open>Array.prototype.join\<close> on an array of strings.\<close>

fun join :: "string \<Rightarrow> string list \<Rightarrow> string" where
  "join sep [] = []"
| "join sep [w] = w"
| "join sep (w # v # ws) = w @ sep @ join sep (v # ws)"

text \<open>
  \<^verbatim>\<open>s.split(/\s+/)\<close>: the pieces between the maximal runs of white space. A run at the
  start or at the end of the string leaves an empty piece there, and the empty string
  splits into one empty piece. The result is never empty; the first branch of the
  \<open>case\<close> is there for totality only.
\<close>

function splitWs :: "string \<Rightarrow> string list" where
  "splitWs [] = [[]]"
| "splitWs (c # cs) =
     (if isSpace c then [] # splitWs (dropWhile isSpace cs)
      else (case splitWs cs of [] \<Rightarrow> [[c]] | w # ws \<Rightarrow> (c # w) # ws))"
  by pat_completeness auto
termination
  by (relation "measure length") (auto simp: le_imp_less_Suc length_dropWhile_le)

text \<open>
  \<^verbatim>\<open>s.split(/[...]/)\<close> for a class of single separator characters: every separator
  character ends a piece, so two adjacent separators enclose an empty piece.
\<close>

fun splitOn :: "(char \<Rightarrow> bool) \<Rightarrow> string \<Rightarrow> string list" where
  "splitOn sep [] = [[]]"
| "splitOn sep (c # cs) =
     (if sep c then [] # splitOn sep cs
      else (case splitOn sep cs of [] \<Rightarrow> [[c]] | w # ws \<Rightarrow> (c # w) # ws))"

text \<open>\<^verbatim>\<open>String.prototype.includes\<close>: the needle occurs as a contiguous substring.\<close>

fun startsWith :: "string \<Rightarrow> string \<Rightarrow> bool" where
  "startsWith s [] = True"
| "startsWith [] (p # ps) = False"
| "startsWith (c # cs) (p # ps) = (c = p \<and> startsWith cs ps)"

fun includesStr :: "string \<Rightarrow> string \<Rightarrow> bool" where
  "includesStr [] needle = (needle = [])"
| "includesStr (c # cs) needle = (startsWith (c # cs) needle \<or> includesStr cs needle)"

text \<open>
  \<^verbatim>\<open>[...new Set(xs)]\<close>: a JavaScript \<^verbatim>\<open>Set\<close> keeps its elements in the order of their
  first insertion.
\<close>

definition setAdd :: "'a list \<Rightarrow> 'a \<Rightarrow> 'a list" where
  "setAdd acc x = (if x \<in> set acc then acc else acc @ [x])"

definition newSet :: "'a list \<Rightarrow> 'a list" where
  "newSet xs = foldl setAdd [] xs"

text \<open>
  A \<^verbatim>\<open>Map\<close> from words to counts, as the list of its entries in insertion order:
  \<^verbatim>\<open>set\<close> on a key that is present keeps the key's place.
\<close>

fun mapSet :: "'k \<Rightarrow> 'v \<Rightarrow> ('k \<times> 'v) list \<Rightarrow> ('k \<times> 'v) list" where
  "mapSet k v [] = [(k, v)]"
| "mapSet k v ((k', v') # m) = (if k = k' then (k, v) # m else (k', v') # mapSet k v m)"

section \<open>Text normalisation and keyword extraction\<close>

definition stopWords :: "string list" where
  "stopWords = [
    ''a'', ''an'', ''and'', ''are'', ''as'', ''at'', ''be'', ''by'',
    ''for'', ''from'', ''has'', ''he'', ''in'', ''is'', ''it'', ''its'',
    ''of'', ''on'', ''that'', ''the'', ''to'', ''was'', ''were'', ''will'',
    ''with'', ''the'', ''this'', ''but'', ''they'', ''have'', ''had'', ''what'',
    ''said'', ''each'', ''which'', ''their'', ''time'', ''if'', ''up'', ''out'',
    ''many'', ''then'', ''them'', ''these'', ''so'', ''some'', ''her'', ''would'',
    ''make'', ''like'', ''into'', ''him'', ''has'', ''two'', ''more'', ''very'',
    ''after'', ''words'', ''long'', ''than'', ''first'', ''been'', ''call'', ''who'',
    ''oil'', ''sit'', ''now'', ''find'', ''down'', ''day'', ''did'', ''get'',
    ''come'', ''made'', ''may'', ''part'', ''over'', ''new'', ''sound'', ''take'',
    ''only'', ''little'', ''work'', ''know'', ''place'', ''year'', ''live'', ''me'',
    ''back'', ''give'', ''most'', ''very'', ''after'', ''thing'', ''our'', ''just'',
    ''name'', ''good'', ''sentence'', ''man'', ''think'', ''say'', ''great'', ''where'',
    ''help'', ''through'', ''much'', ''before'', ''line'', ''right'', ''too'', ''means'',
    ''old'', ''any'', ''same'', ''tell'', ''boy'', ''follow'', ''came'', ''want'',
    ''show'', ''also'', ''around'', ''form'', ''three'', ''small'', ''set'', ''put'',
    ''end'', ''does'', ''another'', ''well'', ''large'', ''must'', ''big'', ''even'',
    ''such'', ''because'', ''turn'', ''here'', ''why'', ''ask'', ''went'', ''men'',
    ''read'', ''need'', ''land'', ''different'', ''home'', ''us'', ''move'', ''try'',
    ''kind'', ''hand'', ''picture'', ''again'', ''change'', ''off'', ''play'', ''spell'',
    ''air'', ''away'', ''animal'', ''house'', ''point'', ''page'', ''letter'', ''mother'',
    ''answer'', ''found'', ''study'', ''still'', ''learn'', ''should'', ''america'', ''world'',
    ''high'', ''every'', ''near'', ''add'', ''food'', ''between'', ''own'', ''below'',
    ''country'', ''plant'', ''last'', ''school'', ''father'', ''keep'', ''tree'', ''never'',
    ''start'', ''city'', ''earth'', ''eye'', ''light'', ''thought'', ''head'', ''under'',
    ''story'', ''saw'', ''left'', ''don't'', ''few'', ''while'', ''along'', ''might'',
    ''close'', ''something'', ''seem'', ''next'', ''hard'', ''open'', ''example'', ''begin'',
    ''life'', ''always'', ''those'', ''both'', ''paper'', ''together'', ''got'', ''group'',
    ''often'', ''run'', ''important'', ''until'', ''children'', ''side'', ''feet'', ''car'',
    ''mile'', ''night'', ''walk'', ''white'', ''sea'', ''began'', ''grow'', ''took'',
    ''river'', ''four'', ''carry'', ''state'', ''once'', ''book'', ''hear'', ''stop'',
    ''without'', ''second'', ''later'', ''miss'', ''idea'', ''enough'', ''eat'', ''face'',
    ''watch'', ''far'', ''indian'', ''real'', ''almost'', ''let'', ''above'', ''girl'',
    ''sometimes'', ''mountain'', ''cut'', ''young'', ''talk'', ''soon'', ''list'', ''song'',
    ''leave'', ''family'', ''it's'']"

text \<open>\<^verbatim>\<open>.replace(/[^\w\s]/g, ' ')\<close>, character by character.\<close>

definition replacePunctuation :: "string \<Rightarrow> string" where
  "replacePunctuation s = map (\<lambda>c. if \<not> (isWordChar c \<or> isSpace c) then CHR '' '' else c) s"

definition normalizeText :: "string \<Rightarrow> string" where
  "normalizeText text =
     (let words = filter (\<lambda>word. length word > 2 \<and> word \<notin> set stopWords)
                    (splitWs (replacePunctuation (toLowerCase text)))
      in join '' '' words)"

definition techTerms :: "string list" where
  "techTerms = [
    ''javascript'', ''python'', ''java'', ''typescript'', ''react'', ''angular'', ''vue'', ''node'',
    ''express'', ''sql'', ''mongodb'', ''postgresql'', ''mysql'', ''aws'', ''azure'', ''docker'',
    ''kubernetes'', ''git'', ''agile'', ''scrum'', ''api'', ''rest'', ''graphql'', ''microservices'',
    ''devops'', ''ci'', ''cd'', ''linux'', ''unix'', ''html'', ''css'', ''sass'',
    ''less'', ''redux'', ''mobx'', ''jest'', ''testing'', ''tdd'', ''bdd'']"

text \<open>
  The loop \<^verbatim>\<open>words.forEach((word) => wordFreq.set(word, (wordFreq.get(word) || 0) + 1))\<close>.
\<close>

definition countWord :: "(string \<times> nat) list \<Rightarrow> string \<Rightarrow> (string \<times> nat) list" where
  "countWord wordFreq word =
     mapSet word ((case map_of wordFreq word of None \<Rightarrow> 0 | Some n \<Rightarrow> n) + 1) wordFreq"

definition extractKeywords :: "string \<Rightarrow> string list" where
  "extractKeywords jobDescription =
     (let normalized = normalizeText jobDescription;
          words = splitWs normalized;
          wordFreq = foldl countWord [] words;
          keywords = map fst (filter (\<lambda>(word, freq).
                        freq \<ge> 2 \<or> word \<in> set techTerms \<or> length word > 5) wordFreq)
      in newSet keywords)"

section \<open>Numbers\<close>

text \<open>
  A JavaScript number is an IEEE 754 double: NaN, an infinity or a finite double. A
  finite double is modelled by the rational number it denotes (the two zeros are not
  told apart). Each arithmetic operation computes the exact result and rounds it to the
  nearest double, a tie to the even significand: the function \<open>fl\<close>.

  \<open>bitLength n\<close> is the number of binary digits of \<open>n > 0\<close>, \<open>exponent x\<close> the binary
  exponent of \<open>x > 0\<close> (\<open>2 ^ e \<le> x < 2 ^ (e + 1)\<close>). A double has a significand of 53
  bits; below \<open>2 ^ -1022\<close> the spacing stays that of the subnormal numbers, and a
  result that rounds to \<open>2 ^ 1024\<close> is infinite.
\<close>

datatype jsnum = NaN | NegInf | Num rat | PosInf

function bitLength :: "int \<Rightarrow> int" where
  "bitLength n = (if n \<le> 0 then 0 else 1 + bitLength (n div 2))"
  by pat_completeness auto
termination
  by (relation "measure nat") auto

declare bitLength.simps [simp del]

definition pow2 :: "int \<Rightarrow> rat" where
  "pow2 k = 2 powi k"

definition exponent :: "rat \<Rightarrow> int" where
  "exponent x = (if 1 \<le> x then bitLength \<lfloor>x\<rfloor> - 1 else - bitLength (\<lceil>1 / x\<rceil> - 1))"

definition roundHalfEven :: "rat \<Rightarrow> int" where
  "roundHalfEven r =
     (let f = \<lfloor>r\<rfloor>; d = r - of_int f
      in if d < 1 / 2 then f else if 1 / 2 < d then f + 1 else if even f then f else f + 1)"

text \<open>The double nearest to \<open>x > 0\<close>, before the test for overflow.\<close>

definition nearest :: "rat \<Rightarrow> rat" where
  "nearest x =
     (let ulp = pow2 (max (exponent x) (- 1022) - 52)
      in of_int (roundHalfEven (x / ulp)) * ulp)"

definition fl :: "rat \<Rightarrow> jsnum" where
  "fl x = (if x = 0 then Num 0
           else if 0 < x then (if pow2 1024 \<le> nearest x then PosInf else Num (nearest x))
           else (if pow2 1024 \<le> nearest (- x) then NegInf else Num (- nearest (- x))))"

text \<open>
  \<^verbatim>\<open>a.length / b.length\<close>, the quotient of two array lengths; a length is an integer
  below \<open>2 ^ 32\<close>, which is a double.
\<close>

definition lengthRatio :: "nat \<Rightarrow> nat \<Rightarrow> jsnum" where
  "lengthRatio m n =
     (if n = 0 then (if m = 0 then NaN else PosInf) else fl (of_nat m / of_nat n))"

text \<open>
  \<^verbatim>\<open>x * y\<close> and \<^verbatim>\<open>x + y\<close>. A literal such as \<^verbatim>\<open>0.4\<close> is the double nearest to it,
  \<open>fl (2 / 5)\<close>.
\<close>

fun jsNeg :: "jsnum \<Rightarrow> jsnum" where
  "jsNeg (Num a) = Num (- a)"
| "jsNeg PosInf = NegInf"
| "jsNeg NegInf = PosInf"
| "jsNeg NaN = NaN"

fun jsTimes :: "jsnum \<Rightarrow> jsnum \<Rightarrow> jsnum" where
  "jsTimes NaN y = NaN"
| "jsTimes x NaN = NaN"
| "jsTimes (Num a) (Num b) = fl (a * b)"
| "jsTimes (Num a) y = (if a = 0 then NaN else if 0 < a then y else jsNeg y)"
| "jsTimes x (Num b) = (if b = 0 then NaN else if 0 < b then x else jsNeg x)"
| "jsTimes x y = (if x = y then PosInf else NegInf)"

fun jsPlus :: "jsnum \<Rightarrow> jsnum \<Rightarrow> jsnum" where
  "jsPlus NaN y = NaN"
| "jsPlus x NaN = NaN"
| "jsPlus (Num a) (Num b) = fl (a + b)"
| "jsPlus (Num a) y = y"
| "jsPlus x (Num b) = x"
| "jsPlus PosInf PosInf = PosInf"
| "jsPlus NegInf NegInf = NegInf"
| "jsPlus x y = NaN"

fun mathMax :: "jsnum \<Rightarrow> jsnum \<Rightarrow> jsnum" where
  "mathMax NaN y = NaN"
| "mathMax x NaN = NaN"
| "mathMax PosInf y = PosInf"
| "mathMax x PosInf = PosInf"
| "mathMax NegInf y = y"
| "mathMax x NegInf = x"
| "mathMax (Num a) (Num b) = Num (max a b)"

fun mathMin :: "jsnum \<Rightarrow> jsnum \<Rightarrow> jsnum" where
  "mathMin NaN y = NaN"
| "mathMin x NaN = NaN"
| "mathMin NegInf y = NegInf"
| "mathMin x NegInf = NegInf"
| "mathMin PosInf y = y"
| "mathMin x PosInf = x"
| "mathMin (Num a) (Num b) = Num (min a b)"

text \<open>
  \<^verbatim>\<open>Math.round\<close> gives the nearest integer, a half upwards; the result is exact.
\<close>

fun mathRound :: "jsnum \<Rightarrow> jsnum" where
  "mathRound (Num r) = Num (of_int \<lfloor>r + 1 / 2\<rfloor>)"
| "mathRound x = x"

text \<open>\<^verbatim>\<open>x || 0\<close> on a number: NaN and zero are the falsy numbers.\<close>

fun orZero :: "jsnum \<Rightarrow> jsnum" where
  "orZero NaN = Num 0"
| "orZero x = x"

section \<open>Resume data and the score result\<close>

text \<open>
  The interfaces of \<^verbatim>\<open>types/resume.ts\<close>. An optional field is an \<open>option\<close>. The
  fields are prefixed by their interface, since several interfaces share field names.
\<close>

record ContactInfo =
  contact_name :: string
  contact_email :: string
  contact_phone :: "string option"
  contact_linkedin :: "string option"
  contact_github :: "string option"
  contact_portfolio :: "string option"
  contact_location :: "string option"

record ExperienceItem =
  exp_id :: string
  exp_title :: string
  exp_company :: string
  exp_location :: "string option"
  exp_startDate :: string
  exp_endDate :: "string option"
  exp_current :: "bool option"
  exp_bullets :: "string list"

record ProjectItem =
  proj_id :: string
  proj_name :: string
  proj_description :: string
  proj_technologies :: "string list"
  proj_link :: "string option"
  proj_bullets :: "string list"

record EducationItem =
  edu_id :: string
  edu_degree :: string
  edu_institution :: string
  edu_location :: "string option"
  edu_graduationDate :: string
  edu_gpa :: "string option"
  edu_highlights :: "string list option"

record ResumeData =
  resume_id :: "string option"
  summary :: string
  skills :: "string list"
  experience :: "ExperienceItem list"
  projects :: "ProjectItem list"
  education :: "EducationItem list"
  contact :: "ContactInfo option"

text \<open>
  The argument \<^verbatim>\<open>resumeData: ResumeData | Record<string, never>\<close>: a resume, the
  object without keys, or (at run time) \<^verbatim>\<open>null\<close>/\<^verbatim>\<open>undefined\<close>. A
  \<^verbatim>\<open>ResumeData\<close> has its five required keys, so \<^verbatim>\<open>Object.keys\<close> of it is not
  empty.
\<close>

datatype resume_arg = Absent | EmptyObject | Resume ResumeData

record ats_result =
  score :: jsnum
  skillMatch :: jsnum
  missingSkills :: "string list"
  keywordImprovements :: "string list"
  experienceAlignment :: jsnum

section \<open>Backtracking regular expressions\<close>

text \<open>
  A regular expression is run by backtracking: alternatives are tried from left to
  right, a greedy quantifier tries the longest repetition first and a lazy one the
  shortest. A matcher maps the rest of the input to the rests that remain after each way
  to match, in the order in which backtracking tries them; the first complete match is
  the one \<^verbatim>\<open>String.prototype.match\<close> returns.
\<close>

type_synonym matcher = "string \<Rightarrow> string list"

text \<open>A literal, as written and under the flag \<^verbatim>\<open>i\<close>.\<close>

definition lit :: "string \<Rightarrow> matcher" where
  "lit p s = (if startsWith s p then [drop (length p) s] else [])"

definition litI :: "string \<Rightarrow> matcher" where
  "litI p s =
     (if startsWith (toLowerCase (take (length p) s)) (toLowerCase p)
      then [drop (length p) s] else [])"

definition alts :: "matcher list \<Rightarrow> matcher" where
  "alts ms s = concat (map (\<lambda>m. m s) ms)"

definition thn :: "matcher \<Rightarrow> matcher \<Rightarrow> matcher" where
  "thn m1 m2 s = concat (map m2 (m1 s))"

text \<open>\<^verbatim>\<open>x?\<close>, \<^verbatim>\<open>[cls]+\<close> and \<^verbatim>\<open>[cls]*\<close> (greedy).\<close>

definition opt :: "matcher \<Rightarrow> matcher" where
  "opt m s = m s @ [s]"

definition plusGreedy :: "(char \<Rightarrow> bool) \<Rightarrow> matcher" where
  "plusGreedy cls s =
     map (\<lambda>k. drop k s) (rev [1 ..< Suc (length (takeWhile cls s))])"

definition starGreedy :: "(char \<Rightarrow> bool) \<Rightarrow> matcher" where
  "starGreedy cls s =
     map (\<lambda>k. drop k s) (rev [0 ..< Suc (length (takeWhile cls s))])"

text \<open>
  A capturing lazy group \<^verbatim>\<open>([cls]+?)\<close> or \<^verbatim>\<open>([cls]*?)\<close>: the captured text with
  the rest, shortest capture first.
\<close>

definition plusLazy :: "(char \<Rightarrow> bool) \<Rightarrow> string \<Rightarrow> (string \<times> string) list" where
  "plusLazy cls s =
     map (\<lambda>k. (take k s, drop k s)) [1 ..< Suc (length (takeWhile cls s))]"

definition starLazy :: "(char \<Rightarrow> bool) \<Rightarrow> string \<Rightarrow> (string \<times> string) list" where
  "starLazy cls s =
     map (\<lambda>k. (take k s, drop k s)) [0 ..< Suc (length (takeWhile cls s))]"

text \<open>
  The search of \<^verbatim>\<open>s.match(re)\<close> without the flag \<^verbatim>\<open>g\<close>: the first way to match
  at the leftmost position that has one. The argument gives, for the input from a
  position on, the captures of group 1 of the matches there in backtracking order.
\<close>

fun search :: "(string \<Rightarrow> string list) \<Rightarrow> string \<Rightarrow> string option" where
  "search m [] = (case m [] of [] \<Rightarrow> None | g # _ \<Rightarrow> Some g)"
| "search m (c # cs) = (case m (c # cs) of [] \<Rightarrow> search m cs | g # _ \<Rightarrow> Some g)"

text \<open>Whether a matcher has a way to match, as a lookahead or a required tail asks.\<close>

definition canMatch :: "matcher \<Rightarrow> string \<Rightarrow> bool" where
  "canMatch m s = (case m s of [] \<Rightarrow> False | r # _ \<Rightarrow> True)"

text \<open>The same for an expression anchored by \<^verbatim>\<open>^\<close>: the start of the input only.\<close>

definition matchAtStart :: "(string \<Rightarrow> string list) \<Rightarrow> string \<Rightarrow> string option" where
  "matchAtStart m s = (case m s of [] \<Rightarrow> None | g # _ \<Rightarrow> Some g)"

section \<open>The rule-based scorer\<close>

text \<open>
  \<^verbatim>\<open>convertResumeDataToText\<close>: the parts are pushed in the order summary, skills,
  experience, projects, education and joined by a space. The tests
  \<^verbatim>\<open>data.skills && Array.isArray(data.skills)\<close> and \<^verbatim>\<open>proj.technologies\<close> hold for
  every array.
\<close>

definition convertResumeDataToText :: "resume_arg \<Rightarrow> string" where
  "convertResumeDataToText resumeData =
     (case resumeData of
        Absent \<Rightarrow> []
      | EmptyObject \<Rightarrow> []
      | Resume data \<Rightarrow>
          join '' ''
            ((if summary data \<noteq> [] then [summary data] else [])
             @ [join '', '' (skills data)]
             @ concat (map (\<lambda>exp. (exp_title exp @ '' at '' @ exp_company exp) # exp_bullets exp)
                         (experience data))
             @ concat (map (\<lambda>proj. [proj_name proj, proj_description proj,
                                      join '', '' (proj_technologies proj)] @ proj_bullets proj)
                         (projects data))
             @ concat (map (\<lambda>edu. (edu_degree edu @ '' from '' @ edu_institution edu)
                                    # (case edu_highlights edu of None \<Rightarrow> [] | Some hs \<Rightarrow> hs))
                         (education data))))"

definition calculateKeywordOverlap :: "string \<Rightarrow> string \<Rightarrow> string list \<Rightarrow> jsnum" where
  "calculateKeywordOverlap normalizedResume normalizedJobDesc jobKeywords =
     (if length jobKeywords = 0 then Num 0
      else let resumeWords = newSet (splitWs normalizedResume);
               matchedKeywords = filter (\<lambda>keyword. keyword \<in> set resumeWords) jobKeywords
           in jsTimes (lengthRatio (length matchedKeywords) (length jobKeywords)) (Num 100))"

text \<open>
  The two expressions of \<^verbatim>\<open>skillPatterns\<close> (flags \<^verbatim>\<open>i\<close> and \<^verbatim>\<open>s\<close>) differ in
  their heading only: a heading, \<^verbatim>\<open>[:\s\n]+\<close>, the group \<^verbatim>\<open>(.*?)\<close> and the
  lookahead \<^verbatim>\<open>(?=\n\n|\n(?:experience|education|responsibilities|duties)|$)\<close>.
\<close>

definition skillHeading1 :: matcher where
  "skillHeading1 =
     alts [litI ''required'',
           thn (litI ''required skill'') (opt (litI ''s'')),
           thn (litI ''qualification'') (opt (litI ''s'')),
           thn (litI ''requirement'') (opt (litI ''s'')),
           thn (litI ''skill'') (opt (litI ''s''))]"

definition skillHeading2 :: matcher where
  "skillHeading2 =
     alts [thn (litI ''technical skill'') (opt (litI ''s'')),
           thn (litI ''core competencie'') (opt (litI ''s'')),
           thn (litI ''key skill'') (opt (litI ''s''))]"

definition sectionEnd :: "string \<Rightarrow> bool" where
  "sectionEnd r =
     (canMatch (lit [CHR 0x0A, CHR 0x0A]) r
      \<or> canMatch (thn (lit [CHR 0x0A])
                     (alts [litI ''experience'', litI ''education'', litI ''responsibilities'',
                            litI ''duties''])) r
      \<or> r = [])"

definition skillPattern :: "matcher \<Rightarrow> string \<Rightarrow> string list" where
  "skillPattern heading s =
     concat (map (\<lambda>r. map fst (filter (\<lambda>(g, r'). sectionEnd r') (starLazy (\<lambda>c. True) r)))
               (thn heading (plusGreedy (\<lambda>c. c = CHR '':'' \<or> isSpace c \<or> c = CHR 0x0A)) s))"

text \<open>
  The separators of \<^verbatim>\<open>.split(/[,\n\<bullet>\-\*\|]/)\<close>. The bullet U+2022 is not a code
  unit of the modelled range.
\<close>

definition skillSeparator :: "char \<Rightarrow> bool" where
  "skillSeparator c =
     (c = CHR '','' \<or> c = CHR 0x0A \<or> c = CHR ''-'' \<or> c = CHR ''*'' \<or> c = CHR ''|'')"

definition extractSection :: "string \<Rightarrow> string list" where
  "extractSection section =
     filter (\<lambda>s. length s > 0 \<and> length s < 50) (map trim (splitOn skillSeparator section))"

text \<open>
  The loop over \<^verbatim>\<open>skillPatterns\<close> stops at the first expression that matches with a
  non-empty group 1.
\<close>

definition extractSkillsFromJobDescription :: "string \<Rightarrow> string list" where
  "extractSkillsFromJobDescription jobDescription =
     (let fromSection =
            (case search (skillPattern skillHeading1) jobDescription of
               Some (c # cs) \<Rightarrow> extractSection (c # cs)
             | _ \<Rightarrow>
                 (case search (skillPattern skillHeading2) jobDescription of
                    Some (c # cs) \<Rightarrow> extractSection (c # cs)
                  | _ \<Rightarrow> []));
          techTerms = extractKeywords jobDescription;
          skills = fromSection @ techTerms
      in newSet (map toLowerCase skills))"

definition getResumeSkills :: "resume_arg \<Rightarrow> string list" where
  "getResumeSkills resumeData =
     (case resumeData of
        Absent \<Rightarrow> []
      | EmptyObject \<Rightarrow> []
      | Resume data \<Rightarrow>
          newSet (map (\<lambda>s. trim (toLowerCase s)) (skills data)
                  @ concat (map (\<lambda>proj. map (\<lambda>t. trim (toLowerCase t)) (proj_technologies proj))
                              (projects data))))"

text \<open>
  The callback of \<^verbatim>\<open>jobSkills.filter\<close> in \<^verbatim>\<open>calculateSkillMatch\<close>, and the array
  \<^verbatim>\<open>matches\<close> it selects.
\<close>

definition skillMatches :: "string list \<Rightarrow> string list \<Rightarrow> string list" where
  "skillMatches resumeSkills jobSkills =
     (let normalizedResume = newSet resumeSkills
      in filter (\<lambda>jobSkill.
           if jobSkill \<in> set normalizedResume then True
           else list_ex (\<lambda>resumeSkill. includesStr resumeSkill jobSkill
                                       \<or> includesStr jobSkill resumeSkill) normalizedResume)
         jobSkills)"

definition calculateSkillMatch :: "string list \<Rightarrow> string list \<Rightarrow> jsnum" where
  "calculateSkillMatch resumeSkills jobSkills =
     (if length jobSkills = 0 then Num 0
      else jsTimes (lengthRatio (length (skillMatches resumeSkills jobSkills))
                                (length jobSkills)) (Num 100))"

definition findMissingSkills :: "string list \<Rightarrow> string list \<Rightarrow> string list" where
  "findMissingSkills resumeSkills jobSkills =
     (let normalizedResume = newSet resumeSkills
      in filter (\<lambda>jobSkill.
           if jobSkill \<in> set normalizedResume then False
           else \<not> list_ex (\<lambda>resumeSkill. includesStr resumeSkill jobSkill
                                         \<or> includesStr jobSkill resumeSkill) normalizedResume)
         jobSkills)"

text \<open>
  The two expressions of \<^verbatim>\<open>jobTitlePatterns\<close> (flag \<^verbatim>\<open>i\<close>, so \<^verbatim>\<open>[a-z\s]\<close> takes
  the capitals too):
  \<^verbatim>\<open>/(?:position|role|title|looking for|seeking)[:\s]+([a-z\s]+?)(?:\.|,|\n|$)/i\<close> and
  \<^verbatim>\<open>/^([a-z\s]+?)(?:\s+(?:engineer|developer|manager|analyst|specialist|coordinator|director|lead|senior|junior))/i\<close>.
\<close>

definition titleChar :: "char \<Rightarrow> bool" where
  "titleChar c = (isAsciiLower c \<or> isAsciiUpper c \<or> isSpace c)"

definition titleEnd :: "string \<Rightarrow> bool" where
  "titleEnd r =
     (case r of [] \<Rightarrow> True | c # _ \<Rightarrow> c = CHR ''.'' \<or> c = CHR '','' \<or> c = CHR 0x0A)"

definition jobTitlePattern1 :: "string \<Rightarrow> string list" where
  "jobTitlePattern1 s =
     concat (map (\<lambda>r. map fst (filter (\<lambda>(g, r'). titleEnd r') (plusLazy titleChar r)))
               (thn (alts [litI ''position'', litI ''role'', litI ''title'',
                           litI ''looking for'', litI ''seeking''])
                    (plusGreedy (\<lambda>c. c = CHR '':'' \<or> isSpace c)) s))"

definition roleNoun :: matcher where
  "roleNoun =
     thn (plusGreedy isSpace)
       (alts [litI ''engineer'', litI ''developer'', litI ''manager'', litI ''analyst'',
              litI ''specialist'', litI ''coordinator'', litI ''director'', litI ''lead'',
              litI ''senior'', litI ''junior''])"

definition jobTitlePattern2 :: "string \<Rightarrow> string list" where
  "jobTitlePattern2 s = map fst (filter (\<lambda>(g, r'). canMatch roleNoun r') (plusLazy titleChar s))"

text \<open>Group 1 of either expression has at least one character, so it is truthy.\<close>

definition inferJobTitle :: "string \<Rightarrow> string" where
  "inferJobTitle jobDescription =
     (case search jobTitlePattern1 jobDescription of
        Some g \<Rightarrow> toLowerCase (trim g)
      | None \<Rightarrow>
          (case matchAtStart jobTitlePattern2 jobDescription of
             Some g \<Rightarrow> toLowerCase (trim g)
           | None \<Rightarrow> []))"

definition calculateExperienceAlignment :: "resume_arg \<Rightarrow> string \<Rightarrow> jsnum" where
  "calculateExperienceAlignment resumeData jobDescription =
     (case resumeData of
        Absent \<Rightarrow> Num 0
      | EmptyObject \<Rightarrow> Num 0
      | Resume data \<Rightarrow>
          if length (experience data) = 0 then Num 0
          else
            let jobTitle = inferJobTitle jobDescription;
                titleMatch =
                  (if jobTitle \<noteq> [] then
                     let jobTitleWords = filter (\<lambda>w. length w > 3) (splitWs jobTitle)
                     in foldl (\<lambda>titleMatch exp.
                          let expTitle = toLowerCase (exp_title exp);
                              matchedWords = filter (\<lambda>word. includesStr expTitle word) jobTitleWords
                          in mathMax titleMatch
                               (jsTimes (lengthRatio (length matchedWords) (length jobTitleWords))
                                  (Num 100)))
                        (Num 0) (experience data)
                   else Num 0);
                jobKeywords = extractKeywords jobDescription;
                experienceKeywordMatch =
                  (if length jobKeywords > 0 then
                     let expTexts = toLowerCase (join '' ''
                           (concat (map (\<lambda>exp. [exp_title exp, exp_company exp] @ exp_bullets exp)
                                      (experience data))));
                         matchedKeywords = filter (\<lambda>keyword. includesStr expTexts keyword) jobKeywords
                     in jsTimes (lengthRatio (length matchedKeywords) (length jobKeywords))
                          (Num 100)
                   else Num 0)
            in jsPlus (jsTimes titleMatch (fl (2 / 5)))
                      (jsTimes experienceKeywordMatch (fl (3 / 5))))"

definition generateKeywordImprovements :: "string list \<Rightarrow> string \<Rightarrow> string list" where
  "generateKeywordImprovements jobKeywords normalizedResume =
     (let resumeWords = newSet (splitWs normalizedResume);
          missingKeywords = filter (\<lambda>keyword. keyword \<notin> set resumeWords) jobKeywords
      in take 10 missingKeywords)"

definition calculateATSScoreRuleBased :: "ResumeData \<Rightarrow> string \<Rightarrow> ats_result" where
  "calculateATSScoreRuleBased resumeData jobDescription =
     (let resumeText = convertResumeDataToText (Resume resumeData);
          normalizedResume = normalizeText resumeText;
          normalizedJobDesc = normalizeText jobDescription;
          jobKeywords = extractKeywords jobDescription;
          keywordOverlap = calculateKeywordOverlap normalizedResume normalizedJobDesc jobKeywords;
          jobSkills = extractSkillsFromJobDescription jobDescription;
          resumeSkills = getResumeSkills (Resume resumeData);
          skillMatch = calculateSkillMatch resumeSkills jobSkills;
          missingSkills = findMissingSkills resumeSkills jobSkills;
          experienceAlignment = calculateExperienceAlignment (Resume resumeData) jobDescription;
          keywordImprovements = generateKeywordImprovements jobKeywords normalizedResume;
          score = mathRound (jsPlus (jsPlus (jsTimes keywordOverlap (fl (2 / 5)))
                                            (jsTimes skillMatch (fl (2 / 5))))
                                    (jsTimes experienceAlignment (fl (1 / 5))))
      in \<lparr> score = mathMin (Num 100) (mathMax (Num 0) score),
           skillMatch = mathRound skillMatch,
           missingSkills = missingSkills,
           keywordImprovements = keywordImprovements,
           experienceAlignment = mathRound experienceAlignment \<rparr>)"

section \<open>The AI scorer and the facade\<close>

text \<open>
  The value \<^verbatim>\<open>aiAnalysis: any\<close> that \<^verbatim>\<open>JSON.parse\<close> returns. An object is the list
  of its entries; \<^verbatim>\<open>JSON.parse\<close> gives an object one entry per key.
\<close>

datatype json =
    JNull
  | JBool bool
  | JNumber jsnum
  | JString string
  | JArray "json list"
  | JObject "(string \<times> json) list"

text \<open>
  What can be thrown: an \<^verbatim>\<open>Error\<close> with its message, the \<^verbatim>\<open>OpenAI.APIError\<close> of
  the client with its message, the \<^verbatim>\<open>TypeError\<close> of a property read on
  \<^verbatim>\<open>null\<close> or \<^verbatim>\<open>undefined\<close>, the \<^verbatim>\<open>SyntaxError\<close> of \<^verbatim>\<open>JSON.parse\<close>, or a value
  that is no \<^verbatim>\<open>Error\<close>.
\<close>

datatype error = Error string | APIError string | TypeError | SyntaxError | NonError

text \<open>
  What the scorer reads from outside the program. \<open>OPENAI_API_KEY\<close> is the environment
  variable. \<open>completion\<close> is the outcome of \<^verbatim>\<open>openai.chat.completions.create\<close> followed
  by \<^verbatim>\<open>response.choices[0]?.message?.content\<close>: an exception, or the content (\<open>None\<close>
  when it is \<^verbatim>\<open>undefined\<close> or \<^verbatim>\<open>null\<close>). The reply of the service is not a function
  the program knows, so the outcome is a value of the environment and every theorem holds
  for all outcomes; the prompts, built by \<^verbatim>\<open>formatResumeForAI\<close>, go to the service
  only. \<open>jsonParse\<close> is \<^verbatim>\<open>JSON.parse\<close> (\<open>None\<close> for its \<^verbatim>\<open>SyntaxError\<close>) and
  \<open>toNumber\<close> is \<^verbatim>\<open>Number\<close> on strings and arrays, both of the run-time library;
  on an array \<^verbatim>\<open>Number\<close> joins the elements as strings, which can throw.
  Usage tracking (lines 999--1012) writes to the usage log only and swallows its own
  failures; it is left out.
\<close>

record ai_env =
  OPENAI_API_KEY :: "string option"
  completion :: "error + string option"
  jsonParse :: "string \<Rightarrow> json option"
  toNumber :: "json \<Rightarrow> error + jsnum"

text \<open>
  A property read \<^verbatim>\<open>v.key\<close> on a value that is not \<^verbatim>\<open>null\<close>: \<open>None\<close> is
  \<^verbatim>\<open>undefined\<close>. None of the keys read here is a property of an array, a string, a
  number or a boolean.
\<close>

definition getProp :: "json \<Rightarrow> string \<Rightarrow> json option" where
  "getProp v key = (case v of JObject entries \<Rightarrow> map_of entries key | _ \<Rightarrow> None)"

text \<open>
  \<^verbatim>\<open>Number(v)\<close>. An object is converted by \<^verbatim>\<open>valueOf\<close>, which gives the object
  back, and then by \<^verbatim>\<open>toString\<close>: the inherited method gives \<^verbatim>\<open>[object Object]\<close>,
  which is no numeral, and an own key \<^verbatim>\<open>toString\<close> of the parsed object hides it
  by a value that cannot be called, so that the conversion throws a \<^verbatim>\<open>TypeError\<close>.
\<close>

definition jsNumber :: "ai_env \<Rightarrow> json option \<Rightarrow> error + jsnum" where
  "jsNumber env v =
     (case v of
        None \<Rightarrow> Inr NaN
      | Some JNull \<Rightarrow> Inr (Num 0)
      | Some (JBool b) \<Rightarrow> Inr (Num (if b then 1 else 0))
      | Some (JNumber n) \<Rightarrow> Inr n
      | Some (JObject entries) \<Rightarrow>
          (case map_of entries ''toString'' of None \<Rightarrow> Inr NaN | Some m \<Rightarrow> Inl TypeError)
      | Some w \<Rightarrow> toNumber env w)"

text \<open>\<^verbatim>\<open>Math.min(100, Math.max(0, Number(v) || 0))\<close>.\<close>

definition clampScore :: "ai_env \<Rightarrow> json option \<Rightarrow> error + jsnum" where
  "clampScore env v =
     (case jsNumber env v of
        Inl e \<Rightarrow> Inl e
      | Inr n \<Rightarrow> Inr (mathMin (Num 100) (mathMax (Num 0) (orZero n))))"

text \<open>The elements of an array that pass \<^verbatim>\<open>typeof x === 'string'\<close>.\<close>

fun strings :: "json list \<Rightarrow> string list" where
  "strings [] = []"
| "strings (JString s # vs) = s # strings vs"
| "strings (v # vs) = strings vs"

text \<open>
  The expression \<^verbatim>\<open>/```(?:json)?\s*(\{[\s\S]*\})\s*```/\<close> of the second parse: group 1
  runs from the brace to the last closing brace that the closing fence can follow.
\<close>

definition fencePattern :: "string \<Rightarrow> string list" where
  "fencePattern s =
     concat (map (\<lambda>r. case r of
                    [] \<Rightarrow> []
                  | c # body \<Rightarrow>
                      if c = CHR ''{'' then
                        map (\<lambda>(g, r'). CHR ''{'' # g @ ''}'')
                          (filter (\<lambda>(g, r'). canMatch (thn (lit ''}'')
                                      (thn (starGreedy isSpace) (lit ''```''))) r')
                             (rev (starLazy (\<lambda>c. True) body)))
                      else [])
               (thn (thn (lit ''```'') (opt (lit ''json''))) (starGreedy isSpace) s))"

text \<open>Lines 1019--1031: \<^verbatim>\<open>JSON.parse\<close>, then the fenced block.\<close>

definition parseResponse :: "ai_env \<Rightarrow> string \<Rightarrow> error + json" where
  "parseResponse env responseContent =
     (case jsonParse env responseContent of
        Some v \<Rightarrow> Inr v
      | None \<Rightarrow>
          (case search fencePattern responseContent of
             Some g \<Rightarrow> (case jsonParse env g of Some v \<Rightarrow> Inr v | None \<Rightarrow> Inl SyntaxError)
           | None \<Rightarrow> Inl (Error ''Failed to parse OpenAI response as JSON'')))"

text \<open>Lines 1038--1053: the two lists, before they are cut.\<close>

definition analysisMissingSkills :: "json \<Rightarrow> string list" where
  "analysisMissingSkills aiAnalysis =
     (case getProp aiAnalysis ''missingSkills'' of
        Some (JArray xs) \<Rightarrow> filter (\<lambda>s. length (trim s) > 0) (strings xs)
      | _ \<Rightarrow> [])"

definition analysisKeywordImprovements :: "json \<Rightarrow> string list" where
  "analysisKeywordImprovements aiAnalysis =
     (let keywordImprovements =
            (case getProp aiAnalysis ''keywordImprovements'' of
               Some (JArray ks) \<Rightarrow> strings ks
             | _ \<Rightarrow> []);
          recommendations =
            (case getProp aiAnalysis ''analysis'' of
               None \<Rightarrow> None
             | Some JNull \<Rightarrow> None
             | Some analysis \<Rightarrow> getProp analysis ''recommendations'')
      in case recommendations of
           Some (JArray rs) \<Rightarrow>
             keywordImprovements
             @ filter (\<lambda>r. r \<notin> set keywordImprovements) (strings (take 5 rs))
         | _ \<Rightarrow> keywordImprovements)"

text \<open>
  Lines 1033--1061. The first read, \<^verbatim>\<open>aiAnalysis.score\<close>, throws on \<^verbatim>\<open>null\<close>; the
  three numbers are converted in the order of the source, and the first conversion that
  throws ends the validation.
\<close>

definition validateAnalysis :: "ai_env \<Rightarrow> json \<Rightarrow> error + ats_result" where
  "validateAnalysis env aiAnalysis =
     (if aiAnalysis = JNull then Inl TypeError
      else
        case clampScore env (getProp aiAnalysis ''score'') of
          Inl e \<Rightarrow> Inl e
        | Inr clampedScore \<Rightarrow>
            (case clampScore env (getProp aiAnalysis ''skillMatch'') of
               Inl e \<Rightarrow> Inl e
             | Inr clampedSkillMatch \<Rightarrow>
                 (case clampScore env (getProp aiAnalysis ''experienceAlignment'') of
                    Inl e \<Rightarrow> Inl e
                  | Inr clampedAlignment \<Rightarrow>
                      Inr \<lparr> score = mathRound clampedScore,
                            skillMatch = mathRound clampedSkillMatch,
                            missingSkills = take 15 (analysisMissingSkills aiAnalysis),
                            keywordImprovements =
                              take 15 (analysisKeywordImprovements aiAnalysis),
                            experienceAlignment = mathRound clampedAlignment \<rparr>)))"

text \<open>The \<^verbatim>\<open>catch\<close> of lines 1062--1067.\<close>

definition rethrow :: "error \<Rightarrow> error" where
  "rethrow e =
     (case e of
        APIError msg \<Rightarrow> Error (''OpenAI API error: '' @ msg)
      | NonError \<Rightarrow> Error ''Failed to analyze resume with AI''
      | _ \<Rightarrow> e)"

definition calculateATSScoreWithAI :: "ai_env \<Rightarrow> ResumeData \<Rightarrow> string \<Rightarrow> error + ats_result" where
  "calculateATSScoreWithAI env resumeData jobDescription =
     (case OPENAI_API_KEY env of
        None \<Rightarrow> Inl (Error ''OPENAI_API_KEY environment variable is not set'')
      | Some [] \<Rightarrow> Inl (Error ''OPENAI_API_KEY environment variable is not set'')
      | Some apiKey \<Rightarrow>
          (case completion env of
             Inl e \<Rightarrow> Inl (rethrow e)
           | Inr content \<Rightarrow>
               let responseContent = (case content of None \<Rightarrow> [] | Some c \<Rightarrow> trim c)
               in if responseContent = [] then Inl (Error ''Empty response from OpenAI'')
                  else (case parseResponse env responseContent of
                          Inl e \<Rightarrow> Inl (rethrow e)
                        | Inr aiAnalysis \<Rightarrow>
                            (case validateAnalysis env aiAnalysis of
                               Inl e \<Rightarrow> Inl (rethrow e)
                             | Inr result \<Rightarrow> Inr result))))"

text \<open>
  \<^verbatim>\<open>calculateATSScore\<close>, with the strategies it invoked, in order, beside its
  result. The rule-based scorer throws nothing on a \<^verbatim>\<open>ResumeData\<close>, so the facade
  always returns.
\<close>

datatype strategy = AIStrategy | RuleBasedStrategy

definition zeroResult :: ats_result where
  "zeroResult = \<lparr> score = Num 0, skillMatch = Num 0, missingSkills = [],
                  keywordImprovements = [], experienceAlignment = Num 0 \<rparr>"

definition calculateATSScore :: "ai_env \<Rightarrow> resume_arg \<Rightarrow> string \<Rightarrow> strategy list \<times> ats_result" where
  "calculateATSScore env resumeData jobDescription =
     (case resumeData of
        Absent \<Rightarrow> ([], zeroResult)
      | EmptyObject \<Rightarrow> ([], zeroResult)
      | Resume structuredResumeData \<Rightarrow>
          (case calculateATSScoreWithAI env structuredResumeData jobDescription of
             Inr result \<Rightarrow> ([AIStrategy], result)
           | Inl e \<Rightarrow>
               ([AIStrategy, RuleBasedStrategy],
                calculateATSScoreRuleBased structuredResumeData jobDescription)))"

section \<open>Reference statements and sample inputs\<close>

text \<open>
  The normaliser as the specification words it: a character that is not a letter, a
  digit or white space becomes a space. The letters of the modelled range are A--Z,
  a--z and the Latin-1 letters.
\<close>

definition isLetter :: "char \<Rightarrow> bool" where
  "isLetter c = (isAsciiUpper c \<or> isAsciiLower c \<or> code c = 170 \<or> code c = 181 \<or> code c = 186
                 \<or> (192 \<le> code c \<and> code c \<noteq> 215 \<and> code c \<noteq> 247))"

definition normalizeText_spec :: "string \<Rightarrow> string" where
  "normalizeText_spec text =
     join '' ''
       (filter (\<lambda>token. \<not> length token \<le> 2 \<and> token \<notin> set stopWords)
          (splitWs (map (\<lambda>c. if isLetter c \<or> isDigit c \<or> isSpace c then c else CHR '' '')
                      (toLowerCase text))))"

text \<open>
  The normaliser on the strings without an underscore, worded anew: the tokens are the
  maximal runs of characters that are not white space, and a character that is not an
  unaccented letter, a digit or white space becomes a space.
\<close>

function tokens :: "string \<Rightarrow> string list" where
  "tokens [] = []"
| "tokens (c # cs) =
     (if isSpace c then tokens cs
      else takeWhile (\<lambda>d. \<not> isSpace d) (c # cs) # tokens (dropWhile (\<lambda>d. \<not> isSpace d) cs))"
  by pat_completeness auto
termination
  by (relation "measure length") (auto simp: le_imp_less_Suc length_dropWhile_le)

definition normalizeText_amended :: "string \<Rightarrow> string" where
  "normalizeText_amended text =
     join '' ''
       (filter (\<lambda>token. \<not> length token \<le> 2 \<and> token \<notin> set stopWords)
          (tokens (map (\<lambda>c. if isAsciiUpper c \<or> isAsciiLower c \<or> isDigit c \<or> isSpace c
                              then c else CHR '' '')
                     (toLowerCase text))))"

text \<open>
  \<^verbatim>\<open>x - y\<close>, for the percentage \<^verbatim>\<open>100 * (1 - missing / required)\<close> computed in
  doubles.
\<close>

fun jsMinus :: "jsnum \<Rightarrow> jsnum \<Rightarrow> jsnum" where
  "jsMinus x y = jsPlus x (jsNeg y)"

text \<open>
  The matching rule shared by \<^verbatim>\<open>calculateSkillMatch\<close> and \<^verbatim>\<open>findMissingSkills\<close>,
  and two predicates on the words of a normalised text.
\<close>

definition fuzzyMatch :: "string list \<Rightarrow> string \<Rightarrow> bool" where
  "fuzzyMatch resumeSkills jobSkill =
     (jobSkill \<in> set resumeSkills
      \<or> list_ex (\<lambda>resumeSkill. includesStr resumeSkill jobSkill
                                \<or> includesStr jobSkill resumeSkill) (newSet resumeSkills))"

definition cleanWord :: "string \<Rightarrow> bool" where
  "cleanWord w = (w \<noteq> [] \<and> (\<forall>c\<in>set w. isWordChar c \<and> \<not> isAsciiUpper c \<and> \<not> isSpace c))"

definition keepWord :: "string \<Rightarrow> bool" where
  "keepWord word = (length word > 2 \<and> word \<notin> set stopWords)"

text \<open>
  What the range invariant asks of a numeric field: a number between 0 and a bound, and,
  for a field of the result, an integer between 0 and 100.
\<close>

definition upTo :: "rat \<Rightarrow> jsnum \<Rightarrow> bool" where
  "upTo c x = (case x of Num q \<Rightarrow> 0 \<le> q \<and> q \<le> c | _ \<Rightarrow> False)"

definition isPercentage :: "jsnum \<Rightarrow> bool" where
  "isPercentage x = (case x of Num q \<Rightarrow> q \<in> \<int> \<and> 0 \<le> q \<and> q \<le> 100 | _ \<Rightarrow> False)"

text \<open>An empty or white-space-only string.\<close>

definition blank :: "string \<Rightarrow> bool" where
  "blank s = list_all isSpace s"

text \<open>Sample inputs. The word \<open>resumeWord\<close> is \<^verbatim>\<open>r\<close>, U+00E9, \<^verbatim>\<open>sum\<close>, U+00E9.\<close>

definition seniorText :: string where
  "seniorText = ''I'm a Senior   Software-Engineer!!''"

definition resumeWord :: string where
  "resumeWord = [CHR ''r'', CHR 0xE9, CHR ''s'', CHR ''u'', CHR ''m'', CHR 0xE9]"

definition pythonSqlResume :: ResumeData where
  "pythonSqlResume = \<lparr> resume_id = None, summary = [], skills = [''Python'', ''SQL''],
     experience = [], projects = [], education = [], contact = None \<rparr>"

definition dockerJob :: string where
  "dockerJob = ''Required Skills: Python, SQL, Docker, Kubernetes''"

definition noKeyEnv :: ai_env where
  "noKeyEnv = \<lparr> OPENAI_API_KEY = None, completion = Inl NonError,
                 jsonParse = (\<lambda>s. None), toNumber = (\<lambda>v. Inr NaN) \<rparr>"

definition qaResume :: ResumeData where
  "qaResume = \<lparr> resume_id = None, summary = ''Tester'', skills = [''Excel''],
     experience = [\<lparr> exp_id = ''1'', exp_title = ''QA Tester'', exp_company = ''Acme'',
                     exp_location = None, exp_startDate = ''2020'', exp_endDate = None,
                     exp_current = Some True, exp_bullets = [''Tested releases''] \<rparr>],
     projects = [], education = [], contact = None \<rparr>"

definition seekingJob :: string where
  "seekingJob = ''We are seeking a QA dev.''"

definition stackJob :: string where
  "stackJob = ''Skills: sql, aws, git, api, css, tdd, bdd, vue, java, node, rest, unix, html, sass, jest, mobx''"

definition stackTerms :: "string list" where
  "stackTerms = [''sql'', ''aws'', ''git'', ''api'', ''css'', ''tdd'', ''bdd'', ''vue'',
     ''java'', ''node'', ''rest'', ''unix'', ''html'', ''sass'', ''jest'', ''mobx'']"

definition blankReply :: string where
  \<open>blankReply = ''{"score":80,"keywordImprovements":[""]}''\<close>

definition blankEnv :: ai_env where
  "blankEnv = \<lparr> OPENAI_API_KEY = Some ''sk-test'', completion = Inr (Some blankReply),
      jsonParse = (\<lambda>s. if s = blankReply
                         then Some (JObject [(''score'', JNumber (Num 80)),
                                             (''keywordImprovements'', JArray [JString []])])
                         else None),
      toNumber = (\<lambda>v. Inr NaN) \<rparr>"

section \<open>Splitting and joining\<close>

lemma splitWs_ne: "splitWs s \<noteq> []"
  by (induction s rule: splitWs.induct) (auto split: list.splits)

lemma splitWs_chars_all:
  "\<forall>w\<in>set (splitWs s). \<forall>c\<in>set w. c \<in> set s \<and> \<not> isSpace c"
proof (induction s rule: splitWs.induct)
  case 1
  then show ?case by simp
next
  case (2 d ds)
  show ?case
  proof (cases "isSpace d")
    case True
    with 2 have "\<forall>w\<in>set (splitWs (dropWhile isSpace ds)). \<forall>c\<in>set w. c \<in> set ds \<and> \<not> isSpace c"
      using set_dropWhileD by fastforce
    with True show ?thesis by simp
  next
    case False
    obtain v vs where vs: "splitWs ds = v # vs" using splitWs_ne by (cases "splitWs ds") auto
    with 2 False show ?thesis by auto
  qed
qed

lemma splitWs_append_word:
  "\<forall>c\<in>set w. \<not> isSpace c \<Longrightarrow>
   splitWs (w @ r) = (case splitWs r of [] \<Rightarrow> [w] | x # xs \<Rightarrow> (w @ x) # xs)"
  using splitWs_ne by (induction w) (auto split: list.splits)

lemma join_Cons: "ws \<noteq> [] \<Longrightarrow> join sep (w # ws) = w @ sep @ join sep ws"
  by (cases ws) auto

lemma join_starts:
  "ws \<noteq> [] \<Longrightarrow> \<forall>w\<in>set ws. w \<noteq> [] \<and> (\<forall>c\<in>set w. \<not> isSpace c) \<Longrightarrow>
   dropWhile isSpace (join '' '' ws) = join '' '' ws"
  by (cases ws; cases "hd ws"; cases "tl ws") auto

lemma splitWs_join:
  "ws \<noteq> [] \<Longrightarrow> \<forall>w\<in>set ws. w \<noteq> [] \<and> (\<forall>c\<in>set w. \<not> isSpace c) \<Longrightarrow>
   splitWs (join '' '' ws) = ws"
proof (induction ws)
  case Nil
  then show ?case by simp
next
  case (Cons w ws)
  show ?case
  proof (cases ws)
    case Nil
    with Cons.prems show ?thesis using splitWs_append_word[of w "[]"] by simp
  next
    case (Cons v vs)
    have sp: "isSpace (CHR '' '')" by (simp add: isSpace_def code_def)
    have "splitWs (CHR '' '' # join '' '' ws) = [] # ws"
      using Cons.IH Cons.prems Cons join_starts[of ws] sp by simp
    then show ?thesis
      using Cons.prems Cons splitWs_append_word[of w "CHR '' '' # join '' '' ws"] by simp
  qed
qed

lemma code_char_of: "code (char_of (n::nat)) = n mod 256"
  by (simp add: code_def)

lemma toLowerChar_not_upper: "\<not> isAsciiUpper (toLowerChar c)"
  by (auto simp: toLowerChar_def isAsciiUpper_def isLatin1Upper_def code_char_of)

lemma lowered_word_char:
  assumes "c \<in> set (replacePunctuation (toLowerCase s))" and "\<not> isSpace c"
  shows "isWordChar c \<and> \<not> isAsciiUpper c"
proof -
  from assms(1) obtain c0 where c0: "c0 \<in> set s"
    and c: "c = (if \<not> (isWordChar (toLowerChar c0) \<or> isSpace (toLowerChar c0)) then CHR '' '' else toLowerChar c0)"
    by (auto simp: replacePunctuation_def toLowerCase_def)
  have sp: "isSpace (CHR '' '')" by (simp add: isSpace_def code_def)
  from c assms(2) sp have "c = toLowerChar c0" and "isWordChar c" by (auto split: if_splits)
  then show ?thesis using toLowerChar_not_upper by simp
qed

lemma word_char_fixed:
  assumes "isWordChar c" and "\<not> isAsciiUpper c"
  shows "toLowerChar c = c"
proof -
  have "c = CHR ''_'' \<Longrightarrow> code c = 95" by (simp add: code_def)
  with assms have "\<not> isLatin1Upper c"
    by (auto simp: isWordChar_def isLatin1Upper_def isAsciiLower_def isDigit_def)
  with assms show ?thesis by (simp add: toLowerChar_def)
qed

lemma join_chars: "c \<in> set (join '' '' ws) \<Longrightarrow> c = CHR '' '' \<or> (\<exists>w\<in>set ws. c \<in> set w)"
  by (induction "'' ''" ws rule: join.induct) auto

lemma normalize_clean_text:
  assumes "\<forall>w\<in>set ws. cleanWord w"
  shows "replacePunctuation (toLowerCase (join '' '' ws)) = join '' '' ws"
proof -
  have sp: "isSpace (CHR '' '')" by (simp add: isSpace_def code_def)
  have nu: "\<not> isAsciiUpper (CHR '' '')" "\<not> isLatin1Upper (CHR '' '')"
    by (simp_all add: isAsciiUpper_def isLatin1Upper_def code_def)
  have "\<forall>c\<in>set (join '' '' ws). toLowerChar c = c \<and> (isWordChar c \<or> isSpace c)"
  proof
    fix c assume "c \<in> set (join '' '' ws)"
    then consider "c = CHR '' ''" | w where "w \<in> set ws" "c \<in> set w"
      using join_chars by blast
    then show "toLowerChar c = c \<and> (isWordChar c \<or> isSpace c)"
    proof cases
      case 1
      then show ?thesis using sp nu by (simp add: toLowerChar_def)
    next
      case 2
      with assms have "isWordChar c" "\<not> isAsciiUpper c" by (auto simp: cleanWord_def)
      then show ?thesis using word_char_fixed by simp
    qed
  qed
  then have "map toLowerChar (join '' '' ws) = join '' '' ws"
    and "map (\<lambda>c. if \<not> (isWordChar c \<or> isSpace c) then CHR '' '' else c) (join '' '' ws) = join '' '' ws"
    by (auto intro!: map_idI)
  then show ?thesis
    by (simp add: replacePunctuation_def toLowerCase_def)
qed

lemma normalizeText_words:
  "\<exists>ws. normalizeText s = join '' '' ws \<and> (\<forall>w\<in>set ws. cleanWord w \<and> keepWord w)"
proof -
  let ?ws = "filter keepWord (splitWs (replacePunctuation (toLowerCase s)))"
  have "normalizeText s = join '' '' ?ws"
    by (simp add: normalizeText_def keepWord_def[abs_def])
  moreover have "\<forall>w\<in>set ?ws. cleanWord w \<and> keepWord w"
    using splitWs_chars_all[of "replacePunctuation (toLowerCase s)"] lowered_word_char[of _ s]
    by (auto simp: cleanWord_def keepWord_def)
  ultimately show ?thesis by blast
qed

lemma splitWs_clean:
  assumes "\<forall>w\<in>set ws. cleanWord w"
  shows "splitWs (join '' '' ws) = (if ws = [] then [[]] else ws)"
  using assms splitWs_join[of ws] by (auto simp: cleanWord_def)

lemma normalizeText_join:
  assumes "\<forall>w\<in>set ws. cleanWord w \<and> keepWord w"
  shows "normalizeText (join '' '' ws) = join '' '' ws"
proof -
  have "filter keepWord (splitWs (join '' '' ws)) = ws"
    using assms splitWs_clean[of ws] by (auto simp: keepWord_def filter_id_conv)
  then show ?thesis
    using assms normalize_clean_text[of ws]
    by (simp add: normalizeText_def keepWord_def[abs_def, symmetric])
qed

text \<open>
  Claim C10. \<^verbatim>\<open>normalizeText\<close> is idempotent: a second pass over its own output
  changes nothing, for every input string.
\<close>

theorem normalizeText_idempotent: "normalizeText (normalizeText s) = normalizeText s"
  using normalizeText_words[of s] normalizeText_join by auto

lemma set_foldl_setAdd: "set (foldl setAdd acc xs) = set acc \<union> set xs"
  by (induction xs arbitrary: acc) (auto simp: setAdd_def)

lemma set_newSet: "set (newSet xs) = set xs"
  by (simp add: newSet_def set_foldl_setAdd)

lemma keys_mapSet: "map fst (mapSet k v m) = setAdd (map fst m) k"
  by (induction m) (force simp: setAdd_def)+

lemma keys_countWords: "map fst (foldl countWord m ws) = foldl setAdd (map fst m) ws"
  by (induction ws arbitrary: m) (simp_all add: countWord_def keys_mapSet)

lemma extractKeywords_words:
  "set (extractKeywords s) \<subseteq> set (splitWs (normalizeText s))"
proof -
  have "set (extractKeywords s)
          \<subseteq> set (map fst (foldl countWord [] (splitWs (normalizeText s))))"
    by (auto simp: extractKeywords_def Let_def set_newSet)
  then show ?thesis by (simp add: keys_countWords set_foldl_setAdd del: set_map)
qed

lemma extractKeywords_blank: "normalizeText s = [] \<Longrightarrow> extractKeywords s = []"
  by (simp add: extractKeywords_def countWord_def newSet_def techTerms_def)

lemma join_Nil_iff:
  "\<forall>w\<in>set ws. w \<noteq> [] \<Longrightarrow> join sep ws = [] \<longleftrightarrow> ws = []"
  by (induction sep ws rule: join.induct) auto

lemma extractKeywords_length:
  assumes "k \<in> set (extractKeywords s)"
  shows "3 \<le> length k"
proof -
  obtain ws where ws: "normalizeText s = join '' '' ws" "\<forall>w\<in>set ws. cleanWord w \<and> keepWord w"
    using normalizeText_words by blast
  show ?thesis
  proof (cases "ws = []")
    case True
    with ws assms show ?thesis using extractKeywords_blank[of s] by simp
  next
    case False
    with ws have "splitWs (normalizeText s) = ws" using splitWs_clean[of ws] by simp
    with assms extractKeywords_words[of s] have "k \<in> set ws" by auto
    with ws show ?thesis by (auto simp: keepWord_def)
  qed
qed

text \<open>
  Claim C9. Every string that \<^verbatim>\<open>extractKeywords\<close> returns has at least three
  characters; the dictionary entries \<^verbatim>\<open>ci\<close> and \<^verbatim>\<open>cd\<close> are never returned.
\<close>

theorem extractKeywords_min_length:
  "(\<forall>k\<in>set (extractKeywords s). 3 \<le> length k)
   \<and> ''ci'' \<notin> set (extractKeywords s) \<and> ''cd'' \<notin> set (extractKeywords s)"
  using extractKeywords_length[of _ s] by fastforce

text \<open>
  At \<^verbatim>\<open>CI/CD with Docker\<close> the keyword \<^verbatim>\<open>docker\<close> is returned and \<^verbatim>\<open>ci\<close>, a
  dictionary entry, is not.
\<close>

theorem extractKeywords_min_length_witness:
  "''docker'' \<in> set (extractKeywords ''CI/CD with Docker'') \<and> 3 \<le> length ''docker''
   \<and> ''ci'' \<in> set techTerms \<and> ''ci'' \<notin> set (extractKeywords ''CI/CD with Docker'')"
proof -
  have mem: "''docker'' \<in> set (extractKeywords ''CI/CD with Docker'')" by code_simp
  have t: "''ci'' \<in> set techTerms" by (simp add: techTerms_def)
  from mem t extractKeywords_min_length[of "''CI/CD with Docker''"] show ?thesis by simp
qed

section \<open>Rounding to the nearest double\<close>

lemma pow2_pos: "0 < pow2 k"
  by (simp add: pow2_def zero_less_power_int)

lemma pow2_add: "pow2 (a + b) = pow2 a * pow2 b"
  by (simp add: pow2_def power_int_add)

lemma pow2_mono: "a \<le> b \<Longrightarrow> pow2 a \<le> pow2 b"
  by (simp add: pow2_def power_int_increasing)

lemma pow2_strict_mono: "a < b \<Longrightarrow> pow2 a < pow2 b"
  by (simp add: pow2_def power_int_strict_increasing)

lemma pow2_Suc: "pow2 (k + 1) = 2 * pow2 k"
  by (simp add: pow2_def power_int_add_1)

lemma pow2_int: "0 \<le> k \<Longrightarrow> pow2 k = of_int (2 ^ nat k)"
  by (simp add: pow2_def power_int_nonneg_exp)

lemma pow2_0: "pow2 0 = 1"
  by (simp add: pow2_def)

lemma pow2_neg: "pow2 (- k) = 1 / pow2 k"
  by (simp add: pow2_def power_int_minus_divide)

lemma bitLength_bounds:
  "0 < n \<Longrightarrow> 1 \<le> bitLength n \<and> pow2 (bitLength n - 1) \<le> of_int n \<and> of_int n < pow2 (bitLength n)"
proof (induction n rule: bitLength.induct)
  case (1 n)
  show ?case
  proof (cases "n = 1")
    case True
    have "bitLength 1 = 1" by (simp add: bitLength.simps[of 1] bitLength.simps[of 0])
    with True show ?thesis by (simp add: pow2_def)
  next
    case False
    with 1 have h: "0 < n div 2" by simp
    with 1 have IH: "1 \<le> bitLength (n div 2)" "pow2 (bitLength (n div 2) - 1) \<le> of_int (n div 2)"
      "of_int (n div 2) < pow2 (bitLength (n div 2))" by simp_all
    have b: "bitLength n = bitLength (n div 2) + 1" using 1 by (simp add: bitLength.simps[of n])
    have "2 * (n div 2) \<le> n" by presburger
    then have lo: "(of_int (2 * (n div 2)) :: rat) \<le> of_int n" by (simp only: of_int_le_iff)
    have "n \<le> 2 * (n div 2) + 1" by presburger
    then have "(of_int n :: rat) \<le> of_int (2 * (n div 2) + 1)" by (simp only: of_int_le_iff)
    then have hi: "(of_int n :: rat) \<le> 2 * of_int (n div 2) + 1" by simp
    define k :: int where "k = 2 ^ nat (bitLength (n div 2))"
    have k: "pow2 (bitLength (n div 2)) = of_int k"
      using IH(1) pow2_int[of "bitLength (n div 2)"] by (simp add: k_def)
    from IH(3) have "n div 2 < k" unfolding k by (simp only: of_int_less_iff)
    then have "n div 2 + 1 \<le> k" by simp
    then have "(of_int (n div 2 + 1) :: rat) \<le> of_int k" by (simp only: of_int_le_iff)
    then have "(of_int (n div 2) :: rat) + 1 \<le> pow2 (bitLength (n div 2))"
      unfolding k by simp
    with hi have "(of_int n :: rat) < 2 * pow2 (bitLength (n div 2))" by simp
    moreover have "pow2 (bitLength n - 1) \<le> of_int n"
      using IH(2) lo pow2_Suc[of "bitLength (n div 2) - 1"] b by simp
    ultimately show ?thesis using b IH(1) pow2_Suc[of "bitLength (n div 2)"] by simp
  qed
qed

lemma exponent_bounds:
  assumes "0 < x"
  shows "pow2 (exponent x) \<le> x \<and> x < pow2 (exponent x + 1)"
proof (cases "1 \<le> x")
  case True
  then have n: "0 < \<lfloor>x\<rfloor>" by simp
  from bitLength_bounds[OF n] have "pow2 (bitLength \<lfloor>x\<rfloor> - 1) \<le> of_int \<lfloor>x\<rfloor>"
    and hi: "of_int \<lfloor>x\<rfloor> < pow2 (bitLength \<lfloor>x\<rfloor>)" by simp_all
  then have lo: "pow2 (bitLength \<lfloor>x\<rfloor> - 1) \<le> x" by (meson of_int_floor_le order_trans)
  define k :: int where "k = 2 ^ nat (bitLength \<lfloor>x\<rfloor>)"
  have k: "pow2 (bitLength \<lfloor>x\<rfloor>) = of_int k"
    using bitLength_bounds[OF n] pow2_int[of "bitLength \<lfloor>x\<rfloor>"] by (simp add: k_def)
  from hi have "\<lfloor>x\<rfloor> < k" unfolding k by (simp only: of_int_less_iff)
  then have "x < of_int k" by (simp add: floor_less_iff)
  with lo k True show ?thesis by (simp add: exponent_def)
next
  case False
  with assms have y: "1 < 1 / x" by simp
  let ?n = "\<lceil>1 / x\<rceil>"
  from y have n: "0 < ?n - 1" by (simp add: less_ceiling_iff)
  let ?k = "bitLength (?n - 1)"
  from bitLength_bounds[OF n] have k1: "1 \<le> ?k" and lo: "pow2 (?k - 1) \<le> of_int (?n - 1)"
    and hi: "of_int (?n - 1) < pow2 ?k" by simp_all
  have "of_int (?n - 1) < 1 / x" by (simp add: ceiling_correct)
  with lo have a: "pow2 (?k - 1) < 1 / x" by simp
  define j :: int where "j = 2 ^ nat ?k"
  have j: "pow2 ?k = of_int j"
    using k1 pow2_int[of ?k] by (simp add: j_def)
  from hi have "?n - 1 < j" unfolding j by (simp only: of_int_less_iff)
  then have "?n \<le> j" by simp
  then have "1 / x \<le> of_int j" by (simp add: ceiling_le_iff)
  then have b: "1 / x \<le> pow2 ?k" by (simp add: j)
  from a assms pow2_pos[of "?k - 1"] have "x < 1 / pow2 (?k - 1)"
    by (simp add: field_simps)
  then have hi': "x < pow2 (- ?k + 1)" using pow2_neg[of "?k - 1"] by simp
  from b assms pow2_pos[of ?k] have "1 / pow2 ?k \<le> x"
    by (simp add: field_simps)
  then have lo': "pow2 (- ?k) \<le> x" by (simp add: pow2_neg)
  from False lo' hi' show ?thesis by (simp add: exponent_def)
qed

lemma exponent_unique:
  assumes "pow2 e \<le> x" and "x < pow2 (e + 1)"
  shows "exponent x = e"
proof -
  have x: "0 < x" using assms(1) pow2_pos[of e] by simp
  from exponent_bounds[OF x] have b: "pow2 (exponent x) \<le> x" "x < pow2 (exponent x + 1)"
    by simp_all
  have "\<not> exponent x < e"
  proof
    assume "exponent x < e"
    then have "pow2 (exponent x + 1) \<le> pow2 e" by (simp add: pow2_mono)
    with b(2) assms(1) show False by simp
  qed
  moreover have "\<not> e < exponent x"
  proof
    assume "e < exponent x"
    then have "pow2 (e + 1) \<le> pow2 (exponent x)" by (simp add: pow2_mono)
    with b(1) assms(2) show False by simp
  qed
  ultimately show ?thesis by simp
qed

lemma exponent_mono:
  assumes "0 < x" and "x \<le> y"
  shows "exponent x \<le> exponent y"
proof (rule ccontr)
  assume "\<not> exponent x \<le> exponent y"
  then have "pow2 (exponent y + 1) \<le> pow2 (exponent x)" by (simp add: pow2_mono)
  moreover from assms have "0 < y" by simp
  ultimately show False
    using exponent_bounds[OF assms(1)] exponent_bounds[OF \<open>0 < y\<close>] assms(2) by simp
qed

lemma rhe_near:
  assumes "of_int m - 1 / 2 < r" and "r < of_int m + 1 / 2"
  shows "roundHalfEven r = m"
proof -
  have "of_int (m - 1) \<le> r" using assms(1) by simp
  then have "m - 1 \<le> \<lfloor>r\<rfloor>" by (simp only: le_floor_iff)
  moreover have "r < of_int m + 1" using assms(2) by simp
  then have "\<lfloor>r\<rfloor> \<le> m" by (simp only: floor_le_iff)
  ultimately have "\<lfloor>r\<rfloor> = m \<or> \<lfloor>r\<rfloor> = m - 1" by arith
  then show ?thesis
  proof
    assume f: "\<lfloor>r\<rfloor> = m"
    then have "r - of_int \<lfloor>r\<rfloor> < 1 / 2" using assms by simp
    then show ?thesis by (simp add: roundHalfEven_def Let_def f)
  next
    assume f: "\<lfloor>r\<rfloor> = m - 1"
    then have "1 / 2 < r - of_int \<lfloor>r\<rfloor>" using assms by simp
    then show ?thesis by (simp add: roundHalfEven_def Let_def f)
  qed
qed

lemma rhe_range: "\<lfloor>r\<rfloor> \<le> roundHalfEven r \<and> roundHalfEven r \<le> \<lfloor>r\<rfloor> + 1"
  by (simp add: roundHalfEven_def Let_def)

lemma rhe_int: "roundHalfEven (of_int k) = k"
  by (simp add: roundHalfEven_def Let_def)

lemma rhe_ge:
  assumes "of_int k \<le> r"
  shows "k \<le> roundHalfEven r"
proof -
  from assms have "k \<le> \<lfloor>r\<rfloor>" by (simp only: le_floor_iff)
  with rhe_range[of r] show ?thesis by simp
qed

lemma rhe_le:
  assumes "r \<le> of_int k"
  shows "roundHalfEven r \<le> k"
proof (cases "r = of_int k")
  case True
  then show ?thesis by (simp add: rhe_int)
next
  case False
  with assms have "r < of_int k" by simp
  then have "\<lfloor>r\<rfloor> < k" by (simp add: floor_less_iff)
  with rhe_range[of r] show ?thesis by simp
qed

lemma rhe_mono:
  assumes "r \<le> s"
  shows "roundHalfEven r \<le> roundHalfEven s"
proof (cases "\<lfloor>r\<rfloor> = \<lfloor>s\<rfloor>")
  case True
  with assms have "r - of_int \<lfloor>r\<rfloor> \<le> s - of_int \<lfloor>s\<rfloor>" by simp
  with True show ?thesis by (auto simp: roundHalfEven_def Let_def)
next
  case False
  with assms have "\<lfloor>r\<rfloor> < \<lfloor>s\<rfloor>" by (simp add: floor_mono order_less_le)
  with rhe_range[of r] rhe_range[of s] show ?thesis by simp
qed

text \<open>A certificate for one rounding that is no tie.\<close>

lemma fl_cert:
  assumes "pow2 e \<le> x" and "x < pow2 (e + 1)" and "- 1022 \<le> e" and "e \<le> 1023"
    and "of_int m - 1 / 2 < x / pow2 (e - 52)" and "x / pow2 (e - 52) < of_int m + 1 / 2"
    and "of_int m * pow2 (e - 52) < pow2 1024"
  shows "fl x = Num (of_int m * pow2 (e - 52))"
proof -
  have x: "0 < x" using assms(1) pow2_pos[of e] by simp
  have e: "exponent x = e" using exponent_unique assms(1,2) by simp
  have "nearest x = of_int m * pow2 (e - 52)"
    using assms(3) rhe_near[OF assms(5,6)] by (simp add: nearest_def Let_def e max_def)
  with x assms(7) show ?thesis by (simp add: fl_def)
qed

lemma nearest_mono:
  assumes "0 < x" and "x \<le> y"
  shows "nearest x \<le> nearest y"
proof -
  let ?ex = "max (exponent x) (- 1022)" and ?ey = "max (exponent y) (- 1022)"
  have y: "0 < y" using assms by simp
  have le: "exponent x \<le> exponent y" by (rule exponent_mono[OF assms])
  show ?thesis
  proof (cases "?ex = ?ey")
    case True
    have "x / pow2 (?ey - 52) \<le> y / pow2 (?ey - 52)"
      using assms(2) pow2_pos[of "?ey - 52"] by (simp add: divide_right_mono)
    then have "roundHalfEven (x / pow2 (?ey - 52)) \<le> roundHalfEven (y / pow2 (?ey - 52))"
      by (rule rhe_mono)
    then have "(of_int (roundHalfEven (x / pow2 (?ey - 52))) :: rat) * pow2 (?ey - 52)
         \<le> of_int (roundHalfEven (y / pow2 (?ey - 52))) * pow2 (?ey - 52)"
      using pow2_pos[of "?ey - 52"] by (simp add: mult_right_mono)
    then show ?thesis unfolding nearest_def Let_def True .
  next
    case False
    with le have lt: "?ex < ?ey" by arith
    then have ey: "?ey = exponent y" by arith
    have sx: "pow2 (?ex - 52) * pow2 53 = pow2 (?ex + 1)"
      unfolding pow2_add[symmetric] by (rule arg_cong[of _ _ pow2]) simp
    have sy: "pow2 (?ey - 52) * pow2 52 = pow2 ?ey"
      unfolding pow2_add[symmetric] by (rule arg_cong[of _ _ pow2]) simp
    have "x < pow2 (exponent x + 1)" using exponent_bounds[OF assms(1)] by simp
    also have "\<dots> \<le> pow2 (?ex + 1)" by (rule pow2_mono) arith
    finally have "x < pow2 (?ex - 52) * pow2 53" by (simp only: sx)
    then have "x / pow2 (?ex - 52) \<le> pow2 53"
      using pow2_pos[of "?ex - 52"] by (simp add: field_simps)
    moreover have p53: "pow2 53 = of_int (2 ^ 53)" by (simp add: pow2_def)
    ultimately have "roundHalfEven (x / pow2 (?ex - 52)) \<le> 2 ^ 53"
      using rhe_le[of "x / pow2 (?ex - 52)" "2 ^ 53"] by simp
    then have "(of_int (roundHalfEven (x / pow2 (?ex - 52))) :: rat) \<le> pow2 53"
      unfolding p53 by (simp only: of_int_le_iff)
    then have "nearest x \<le> pow2 53 * pow2 (?ex - 52)"
      unfolding nearest_def Let_def using pow2_pos[of "?ex - 52"] by (simp add: mult_right_mono)
    also have "\<dots> = pow2 (?ex + 1)" using sx by (simp only: mult.commute)
    also have "\<dots> \<le> pow2 ?ey" by (rule pow2_mono) (use lt in arith)
    finally have a: "nearest x \<le> pow2 ?ey" .
    have "pow2 ?ey \<le> y" using exponent_bounds[OF y] ey by simp
    then have "pow2 (?ey - 52) * pow2 52 \<le> y" by (simp only: sy)
    then have "pow2 52 \<le> y / pow2 (?ey - 52)"
      using pow2_pos[of "?ey - 52"] by (simp add: field_simps)
    moreover have p52: "pow2 52 = of_int (2 ^ 52)" by (simp add: pow2_def)
    ultimately have "2 ^ 52 \<le> roundHalfEven (y / pow2 (?ey - 52))"
      using rhe_ge[of "2 ^ 52" "y / pow2 (?ey - 52)"] by simp
    then have "pow2 52 \<le> (of_int (roundHalfEven (y / pow2 (?ey - 52))) :: rat)"
      unfolding p52 by (simp only: of_int_le_iff)
    then have "pow2 52 * pow2 (?ey - 52) \<le> nearest y"
      unfolding nearest_def Let_def using pow2_pos[of "?ey - 52"] by (simp add: mult_right_mono)
    then have "pow2 ?ey \<le> nearest y" using sy by (simp only: mult.commute)
    with a show ?thesis by simp
  qed
qed

lemma nearest_nonneg: "0 < x \<Longrightarrow> 0 \<le> nearest x"
  unfolding nearest_def Let_def
  using rhe_ge[of 0 "x / pow2 (max (exponent x) (- 1022) - 52)"]
    pow2_pos[of "max (exponent x) (- 1022) - 52"]
  by simp

lemma fl_bounded:
  assumes "0 \<le> x" and "x \<le> c" and "fl c = Num c'"
  shows "\<exists>y. fl x = Num y \<and> 0 \<le> y \<and> y \<le> c'"
proof (cases "x = 0")
  case True
  show ?thesis
  proof (cases "c = 0")
    case True
    with assms \<open>x = 0\<close> show ?thesis by (simp add: fl_def)
  next
    case False
    with assms True have "0 < c" by simp
    with assms(3) have "c' = nearest c" by (simp add: fl_def split: if_splits)
    with nearest_nonneg[OF \<open>0 < c\<close>] True show ?thesis by (simp add: fl_def)
  qed
next
  case False
  with assms have x: "0 < x" and c: "0 < c" by simp_all
  from c assms(3) have c': "c' = nearest c" "\<not> pow2 1024 \<le> nearest c"
    by (simp_all add: fl_def split: if_splits)
  from nearest_mono[OF x assms(2)] c' have "\<not> pow2 1024 \<le> nearest x" "nearest x \<le> c'"
    by simp_all
  with x nearest_nonneg[OF x] show ?thesis by (simp add: fl_def)
qed

text \<open>The roundings that the proofs below use.\<close>

lemma fl_two_fifths: "fl (2 / 5) = Num (3602879701896397 / 9007199254740992)"
  using fl_cert[of "- 2" "2 / 5" 7205759403792794] by (simp add: pow2_def)

lemma fl_three_fifths: "fl (3 / 5) = Num (5404319552844595 / 9007199254740992)"
  using fl_cert[of "- 1" "3 / 5" 5404319552844595] by (simp add: pow2_def)

lemma fl_one_fifth: "fl (1 / 5) = Num (3602879701896397 / 18014398509481984)"
  using fl_cert[of "- 3" "1 / 5" 7205759403792794] by (simp add: pow2_def)

lemma fl_forty: "fl (100 * (3602879701896397 / 9007199254740992)) = Num (40)"
  using fl_cert[of "5" "100 * (3602879701896397 / 9007199254740992)" 5629499534213120] by (simp add: pow2_def)

lemma fl_sixty: "fl (100 * (5404319552844595 / 9007199254740992)) = Num (60)"
  using fl_cert[of "5" "100 * (5404319552844595 / 9007199254740992)" 8444249301319680] by (simp add: pow2_def)

lemma fl_twenty: "fl (100 * (3602879701896397 / 18014398509481984)) = Num (20)"
  using fl_cert[of "4" "100 * (3602879701896397 / 18014398509481984)" 5629499534213120] by (simp add: pow2_def)

lemma fl_one: "fl (1) = Num (1)"
  using fl_cert[of "0" "1" 4503599627370496] by (simp add: pow2_def)

lemma fl_eighty: "fl (80) = Num (80)"
  using fl_cert[of "6" "80" 5629499534213120] by (simp add: pow2_def)

lemma fl_hundred: "fl (100) = Num (100)"
  using fl_cert[of "6" "100" 7036874417766400] by (simp add: pow2_def)

lemma fl_three_sevenths: "fl (3 / 7) = Num (7720456504063707 / 18014398509481984)"
  using fl_cert[of "- 2" "3 / 7" 7720456504063707] by (simp add: pow2_def)

lemma fl_docker_percent: "fl (7720456504063707 / 18014398509481984 * 100) = Num (6031606643799771 / 140737488355328)"
  using fl_cert[of "5" "7720456504063707 / 18014398509481984 * 100" 6031606643799771] by (simp add: pow2_def)

lemma fl_one_third: "fl (1 / 3) = Num (6004799503160661 / 18014398509481984)"
  using fl_cert[of "- 2" "1 / 3" 6004799503160661] by (simp add: pow2_def)

lemma fl_third_percent: "fl (6004799503160661 / 18014398509481984 * 100) = Num (2345624805922133 / 70368744177664)"
  using fl_cert[of "5" "6004799503160661 / 18014398509481984 * 100" 4691249611844266] by (simp add: pow2_def)

lemma fl_twenty_three_fortieths: "fl (23 / 40) = Num (2589569785738035 / 4503599627370496)"
  using fl_cert[of "- 1" "23 / 40" 5179139571476070] by (simp add: pow2_def)

lemma fl_fortieths_percent: "fl (2589569785738035 / 4503599627370496 * 100) = Num (8092405580431359 / 140737488355328)"
  using fl_cert[of "5" "2589569785738035 / 4503599627370496 * 100" 8092405580431359] by (simp add: pow2_def)

lemma fl_two_thirds: "fl (2 / 3) = Num (6004799503160661 / 9007199254740992)"
  using fl_cert[of "- 1" "2 / 3" 6004799503160661] by (simp add: pow2_def)

lemma fl_one_minus: "fl (1 - 6004799503160661 / 9007199254740992) = Num (3002399751580331 / 9007199254740992)"
  using fl_cert[of "- 2" "1 - 6004799503160661 / 9007199254740992" 6004799503160662] by (simp add: pow2_def)

lemma fl_hundred_times: "fl (100 * (3002399751580331 / 9007199254740992)) = Num (4691249611844267 / 140737488355328)"
  using fl_cert[of "5" "100 * (3002399751580331 / 9007199254740992)" 4691249611844267] by (simp add: pow2_def)

lemma rhe_error: "\<bar>of_int (roundHalfEven r) - r\<bar> \<le> 1 / 2"
proof -
  have "of_int \<lfloor>r\<rfloor> \<le> r" "r < of_int \<lfloor>r\<rfloor> + 1" by linarith+
  then show ?thesis by (auto simp: roundHalfEven_def Let_def abs_le_iff)
qed

lemma nearest_error:
  assumes "0 < x" and "x \<le> pow2 k" and "- 1022 \<le> k"
  shows "\<bar>nearest x - x\<bar> \<le> pow2 (k - 53)"
proof -
  let ?e = "max (exponent x) (- 1022)"
  let ?u = "pow2 (?e - 52)"
  have "\<not> k < exponent x"
  proof
    assume "k < exponent x"
    then have "pow2 (k + 1) \<le> pow2 (exponent x)" by (simp add: pow2_mono)
    with exponent_bounds[OF assms(1)] assms(2) pow2_strict_mono[of k "k + 1"] show False by simp
  qed
  with assms(3) have "?e \<le> k" by arith
  then have u: "?u \<le> pow2 (k - 52)" by (intro pow2_mono) simp
  have up: "0 < ?u" by (rule pow2_pos)
  have "nearest x - x = (of_int (roundHalfEven (x / ?u)) - x / ?u) * ?u"
    using up by (simp add: nearest_def Let_def field_simps)
  then have "\<bar>nearest x - x\<bar> = \<bar>of_int (roundHalfEven (x / ?u)) - x / ?u\<bar> * \<bar>?u\<bar>"
    by (simp only: abs_mult)
  also have "\<dots> = \<bar>of_int (roundHalfEven (x / ?u)) - x / ?u\<bar> * ?u"
    using up by (simp only: abs_of_pos)
  finally have "\<bar>nearest x - x\<bar> = \<bar>of_int (roundHalfEven (x / ?u)) - x / ?u\<bar> * ?u" .
  also have "\<dots> \<le> 1 / 2 * ?u"
    using rhe_error[of "x / ?u"] up by (intro mult_right_mono) simp_all
  also have "\<dots> \<le> 1 / 2 * pow2 (k - 52)" using u by simp
  also have "\<dots> = pow2 (k - 53)"
    using pow2_Suc[of "k - 53"] by simp
  finally show ?thesis .
qed

lemma fl_near:
  assumes "0 \<le> x" and "x \<le> pow2 k" and "- 1022 \<le> k" and "k \<le> 1023"
  shows "\<exists>y. fl x = Num y \<and> \<bar>y - x\<bar> \<le> pow2 (k - 53)"
proof (cases "x = 0")
  case True
  then show ?thesis using pow2_pos[of "k - 53"] by (simp add: fl_def)
next
  case False
  with assms have x: "0 < x" by simp
  have e: "\<bar>nearest x - x\<bar> \<le> pow2 (k - 53)" by (rule nearest_error[OF x assms(2,3)])
  have "pow2 (k - 53) < pow2 k" by (rule pow2_strict_mono) simp
  with e assms(2) have "nearest x < pow2 k + pow2 k" by (simp add: abs_le_iff)
  also have "\<dots> = pow2 (k + 1)" by (simp add: pow2_Suc)
  also have "\<dots> \<le> pow2 1024" by (rule pow2_mono) (use assms(4) in simp)
  finally have "\<not> pow2 1024 \<le> nearest x" by simp
  with x e show ?thesis by (simp add: fl_def)
qed

section \<open>The normaliser against its description\<close>

lemmas char_defs = code_def isAsciiUpper_def isAsciiLower_def isDigit_def isLatin1Upper_def
  toLowerChar_def isWordChar_def isSpace_def char_of_eq_iff

text \<open>
  Claim C7, as stated, fails: the class \<^verbatim>\<open>\w\<close> holds the underscore, so the
  underscore of \<^verbatim>\<open>snake_case\<close> stays and joins the two words, where the statement
  has it replaced by a space; and \<^verbatim>\<open>\w\<close> holds no accented letter, so the two
  accented letters of \<open>resumeWord\<close> are replaced by spaces, where the statement keeps
  every letter.
\<close>

theorem normalizeText_underscore_counterexample:
  "normalizeText ''snake_case'' \<noteq> normalizeText_spec ''snake_case''
   \<and> normalizeText ''snake_case'' = ''snake_case''
   \<and> normalizeText_spec ''snake_case'' = ''snake case''
   \<and> normalizeText resumeWord = ''sum''
   \<and> normalizeText_spec resumeWord = resumeWord"
proof -
  have "''snake_case'' \<notin> set stopWords" "''snake'' \<notin> set stopWords" "''case'' \<notin> set stopWords"
    "''sum'' \<notin> set stopWords" "resumeWord \<notin> set stopWords"
    by (simp_all add: stopWords_def resumeWord_def)
  then show ?thesis
    by (simp add: normalizeText_def normalizeText_spec_def toLowerCase_def
        replacePunctuation_def isLetter_def char_defs resumeWord_def)
qed

lemma tokens_dropWhile: "tokens (dropWhile isSpace s) = tokens s"
  by (induction s) auto

lemma splitWs_word:
  assumes "\<not> isSpace c"
  shows "splitWs (c # cs)
           = takeWhile (\<lambda>d. \<not> isSpace d) (c # cs)
             # (case dropWhile (\<lambda>d. \<not> isSpace d) cs of
                  [] \<Rightarrow> []
                | d # ds \<Rightarrow> splitWs (dropWhile isSpace ds))"
proof -
  let ?w = "c # takeWhile (\<lambda>d. \<not> isSpace d) cs"
  let ?r = "dropWhile (\<lambda>d. \<not> isSpace d) cs"
  have tw: "takeWhile (\<lambda>d. \<not> isSpace d) (c # cs) = ?w" using assms by simp
  have w: "\<forall>d\<in>set ?w. \<not> isSpace d" using assms by (auto dest: set_takeWhileD)
  have s: "?w @ ?r = c # cs" by simp
  have "splitWs (c # cs) = splitWs (?w @ ?r)" by (simp only: s)
  also have "\<dots> = (case splitWs ?r of [] \<Rightarrow> [?w] | x # xs \<Rightarrow> (?w @ x) # xs)"
    by (rule splitWs_append_word[OF w])
  also have "\<dots> = ?w # (case ?r of [] \<Rightarrow> [] | d # ds \<Rightarrow> splitWs (dropWhile isSpace ds))"
  proof (cases ?r)
    case Nil
    show ?thesis unfolding Nil by simp
  next
    case (Cons d ds)
    then have "isSpace d" by (metis hd_dropWhile list.sel(1) list.distinct(1))
    then show ?thesis unfolding Cons by simp
  qed
  finally show ?thesis by (simp only: tw)
qed

lemma nonempty_splitWs: "filter (\<lambda>w. w \<noteq> []) (splitWs s) = tokens s"
proof (induction s rule: length_induct)
  case (1 s)
  show ?case
  proof (cases s)
    case Nil
    then show ?thesis by simp
  next
    case s: (Cons c cs)
    show ?thesis
    proof (cases "isSpace c")
      case True
      have "length (dropWhile isSpace cs) < length s"
        using s by (simp add: le_imp_less_Suc length_dropWhile_le)
      with 1 have "filter (\<lambda>w. w \<noteq> []) (splitWs (dropWhile isSpace cs))
                     = tokens (dropWhile isSpace cs)" by blast
      with True s show ?thesis by (simp add: tokens_dropWhile)
    next
      case False
      let ?w = "takeWhile (\<lambda>d. \<not> isSpace d) (c # cs)"
      let ?r = "dropWhile (\<lambda>d. \<not> isSpace d) cs"
      have w: "?w \<noteq> []" using False by simp
      have tk: "tokens (c # cs) = ?w # tokens ?r" using False by simp
      note sw = splitWs_word[OF False, of cs]
      show ?thesis
      proof (cases ?r)
        case Nil
        have "filter (\<lambda>w. w \<noteq> []) (splitWs (c # cs)) = [?w]"
          unfolding sw Nil using w by simp
        then show ?thesis unfolding s tk Nil by simp
      next
        case r: (Cons d ds)
        then have d: "isSpace d" by (metis hd_dropWhile list.sel(1) list.distinct(1))
        have "length ds < length ?r" unfolding r by simp
        also have "\<dots> \<le> length cs" by (rule length_dropWhile_le)
        finally have "length (dropWhile isSpace ds) < length s"
          using s length_dropWhile_le[of isSpace ds] by simp
        with 1 have "filter (\<lambda>w. w \<noteq> []) (splitWs (dropWhile isSpace ds))
                       = tokens (dropWhile isSpace ds)" by blast
        also have "\<dots> = tokens (d # ds)" using d by (simp add: tokens_dropWhile)
        finally have ih: "filter (\<lambda>w. w \<noteq> []) (splitWs (dropWhile isSpace ds))
                            = tokens (d # ds)" .
        have "filter (\<lambda>w. w \<noteq> []) (splitWs (c # cs)) = ?w # tokens (d # ds)"
          unfolding sw r using w ih by simp
        then show ?thesis unfolding s tk r by simp
      qed
    qed
  qed
qed

lemma toLowerChar_underscore: "toLowerChar c = CHR ''_'' \<longleftrightarrow> c = CHR ''_''"
proof
  assume a: "toLowerChar c = CHR ''_''"
  show "c = CHR ''_''"
  proof (rule ccontr)
    assume n: "c \<noteq> CHR ''_''"
    with a have u: "isAsciiUpper c \<or> isLatin1Upper c" and "char_of (code c + 32) = CHR ''_''"
      by (auto simp: toLowerChar_def split: if_splits)
    then have "code (char_of (code c + 32)) = code (CHR ''_'')" by simp
    then have "(code c + 32) mod 256 = 95" by (simp add: code_char_of) (simp add: code_def)
    with u show False by (auto simp: isAsciiUpper_def isLatin1Upper_def)
  qed
next
  assume "c = CHR ''_''"
  then show "toLowerChar c = CHR ''_''"
    by (simp add: toLowerChar_def isAsciiUpper_def isLatin1Upper_def code_def)
qed

text \<open>
  Claim C7, amended. For every input string without an underscore, \<^verbatim>\<open>normalizeText\<close>
  lowercases the input, replaces every character that is not an unaccented letter, a
  digit or white space by a space, splits on white-space runs, drops the tokens of
  length at most 2 and the stop words, and joins the rest by single spaces. What happens
  to an underscore is left open.
\<close>

theorem normalizeText_without_underscore:
  assumes "CHR ''_'' \<notin> set text"
  shows "normalizeText text = normalizeText_amended text"
proof -
  let ?keep = "\<lambda>token. \<not> length token \<le> 2 \<and> token \<notin> set stopWords"
  have low: "CHR ''_'' \<notin> set (toLowerCase text)"
  proof
    assume "CHR ''_'' \<in> set (toLowerCase text)"
    then obtain x where "x \<in> set text" and "toLowerChar x = CHR ''_''"
      by (auto simp: toLowerCase_def)
    with assms show False by (simp add: toLowerChar_underscore)
  qed
  have "replacePunctuation (toLowerCase text)
          = map (\<lambda>c. if isAsciiUpper c \<or> isAsciiLower c \<or> isDigit c \<or> isSpace c
                        then c else CHR '' '') (toLowerCase text)"
    unfolding replacePunctuation_def using low by (intro map_cong) (auto simp: isWordChar_def)
  moreover have "filter ?keep (splitWs s) = filter ?keep (tokens s)" for s
  proof -
    have "filter ?keep (splitWs s) = filter ?keep (filter (\<lambda>w. w \<noteq> []) (splitWs s))"
      by (auto intro!: filter_cong)
    then show ?thesis by (simp only: nonempty_splitWs)
  qed
  ultimately show ?thesis
    by (simp add: normalizeText_def normalizeText_amended_def not_le)
qed

lemma seniorText_words:
  "splitWs (replacePunctuation (toLowerCase seniorText))
     = [''i'', ''m'', ''a'', ''senior'', ''software'', ''engineer'', []]"
  by code_simp

lemma seniorText_normalized: "normalizeText seniorText = ''senior software engineer''"
  unfolding normalizeText_def Let_def seniorText_words by (simp add: stopWords_def)

theorem normalizeText_without_underscore_witness:
  "CHR ''_'' \<notin> set seniorText
   \<and> normalizeText seniorText = normalizeText_amended seniorText
   \<and> normalizeText_amended seniorText = ''senior software engineer''"
proof -
  have u: "CHR ''_'' \<notin> set seniorText" by (simp add: seniorText_def)
  from normalizeText_without_underscore[OF u] u seniorText_normalized show ?thesis by simp
qed

section \<open>The facade\<close>

lemma missing_key_fails:
  "OPENAI_API_KEY env = None \<Longrightarrow>
   calculateATSScoreWithAI env resumeData jobDescription
     = Inl (Error ''OPENAI_API_KEY environment variable is not set'')"
  by (simp add: calculateATSScoreWithAI_def)

text \<open>
  Claim C1. For a resume (an object with keys) and every job description: when
  \<^verbatim>\<open>calculateATSScoreWithAI\<close> fails, with whatever error, \<^verbatim>\<open>calculateATSScore\<close>
  returns what \<^verbatim>\<open>calculateATSScoreRuleBased\<close> returns on the same resume and job
  description, having invoked the AI scorer and then the rule-based scorer.
\<close>

theorem fallback_correctness:
  assumes "calculateATSScoreWithAI env resumeData jobDescription = Inl e"
  shows "calculateATSScore env (Resume resumeData) jobDescription
           = ([AIStrategy, RuleBasedStrategy],
              calculateATSScoreRuleBased resumeData jobDescription)"
  using assms by (simp add: calculateATSScore_def)

text \<open>With no API key in the environment the AI scorer fails, and the facade falls back.\<close>

theorem fallback_correctness_witness:
  "calculateATSScoreWithAI noKeyEnv pythonSqlResume ''Required Skills: Python''
     = Inl (Error ''OPENAI_API_KEY environment variable is not set'')
   \<and> snd (calculateATSScore noKeyEnv (Resume pythonSqlResume) ''Required Skills: Python'')
     = calculateATSScoreRuleBased pythonSqlResume ''Required Skills: Python''"
proof -
  have f: "calculateATSScoreWithAI noKeyEnv pythonSqlResume ''Required Skills: Python''
             = Inl (Error ''OPENAI_API_KEY environment variable is not set'')"
    by (rule missing_key_fails) (simp add: noKeyEnv_def)
  from fallback_correctness[OF f] f show ?thesis by simp
qed

text \<open>
  Claim C2. For every job description and every environment, \<^verbatim>\<open>calculateATSScore\<close>
  on an absent resume (\<^verbatim>\<open>null\<close>, \<^verbatim>\<open>undefined\<close>) or on the object without keys
  returns the result of zeros and empty lists and invokes neither strategy.
\<close>

theorem empty_resume_short_circuit:
  "calculateATSScore env Absent jobDescription
     = ([], \<lparr> score = Num 0, skillMatch = Num 0, missingSkills = [],
              keywordImprovements = [], experienceAlignment = Num 0 \<rparr>)
   \<and> calculateATSScore env EmptyObject jobDescription
     = ([], \<lparr> score = Num 0, skillMatch = Num 0, missingSkills = [],
              keywordImprovements = [], experienceAlignment = Num 0 \<rparr>)"
  by (simp add: calculateATSScore_def zeroResult_def)

section \<open>Skill matching\<close>

lemma mathRound_zero: "mathRound (Num 0) = Num 0"
proof -
  have "\<lfloor>1 / 2 :: rat\<rfloor> = 0" by (simp add: floor_eq_iff)
  then show ?thesis by simp
qed

text \<open>
  Claim C5. For a job description that yields no keyword and no required skill, the
  skill-match percentage is 0 and the keyword overlap is 0 (a number, neither NaN nor
  100), whatever the resume.
\<close>

theorem division_by_zero_policy:
  assumes "extractKeywords jobDescription = []"
    and "extractSkillsFromJobDescription jobDescription = []"
  shows "calculateSkillMatch resumeSkills (extractSkillsFromJobDescription jobDescription) = Num 0
         \<and> calculateKeywordOverlap normalizedResume normalizedJobDesc
              (extractKeywords jobDescription) = Num 0
         \<and> skillMatch (calculateATSScoreRuleBased resumeData jobDescription) = Num 0"
  using assms
  by (simp add: calculateSkillMatch_def calculateKeywordOverlap_def
      calculateATSScoreRuleBased_def Let_def mathRound_zero del: mathRound.simps)

lemma blank_keywords: "extractKeywords [] = []"
  by (simp add: extractKeywords_def normalizeText_def toLowerCase_def replacePunctuation_def
      countWord_def newSet_def techTerms_def)

lemma blank_skills: "extractSkillsFromJobDescription [] = []"
  unfolding extractSkillsFromJobDescription_def blank_keywords by code_simp

text \<open>The empty job description yields no keyword and no required skill.\<close>

theorem division_by_zero_policy_witness:
  "extractKeywords [] = [] \<and> extractSkillsFromJobDescription [] = []
   \<and> calculateSkillMatch [''python''] (extractSkillsFromJobDescription []) = Num 0
   \<and> calculateKeywordOverlap ''python'' [] (extractKeywords []) = Num 0
   \<and> skillMatch (calculateATSScoreRuleBased pythonSqlResume []) = Num 0"
  using division_by_zero_policy[OF blank_keywords blank_skills, of "[''python'']" "''python''" "[]" pythonSqlResume]
    blank_keywords blank_skills by simp

lemma percentage_error:
  assumes "0 < n" and "m \<le> n"
  shows "\<exists>p. jsTimes (lengthRatio m n) (Num 100) = Num p
             \<and> \<bar>p - 100 * (of_nat m / of_nat n)\<bar> \<le> 1 / 2 ^ 45"
proof -
  define r :: rat where "r = of_nat m / of_nat n"
  from assms have r: "0 \<le> r" "r \<le> 1" by (simp_all add: r_def divide_le_eq)
  from fl_near[of r 0] r obtain q where q: "fl r = Num q" "\<bar>q - r\<bar> \<le> pow2 (- 53)"
    by (auto simp: pow2_0)
  from fl_bounded[OF r fl_one] q(1) have q01: "0 \<le> q" "q \<le> 1" by simp_all
  have p7: "pow2 7 = 128" by (simp add: pow2_def)
  from q01 have "0 \<le> q * 100" "q * 100 \<le> pow2 7" by (simp_all add: p7)
  from fl_near[OF this] obtain p where p: "fl (q * 100) = Num p" "\<bar>p - q * 100\<bar> \<le> pow2 (- 46)"
    by auto
  have "p - 100 * r = (p - q * 100) + 100 * (q - r)" by (simp add: algebra_simps)
  then have "\<bar>p - 100 * r\<bar> \<le> \<bar>p - q * 100\<bar> + \<bar>100 * (q - r)\<bar>"
    by (simp only: abs_triangle_ineq)
  moreover have "\<bar>100 * (q - r)\<bar> = 100 * \<bar>q - r\<bar>"
    by (simp only: abs_mult abs_numeral)
  ultimately have "\<bar>p - 100 * r\<bar> \<le> \<bar>p - q * 100\<bar> + 100 * \<bar>q - r\<bar>"
    by (simp only:)
  then have "\<bar>p - 100 * r\<bar> \<le> pow2 (- 46) + 100 * pow2 (- 53)" using p(2) q(2) by simp
  also have "\<dots> \<le> 1 / 2 ^ 45" by (simp add: pow2_def)
  finally have "\<bar>p - 100 * r\<bar> \<le> 1 / 2 ^ 45" .
  with assms q(1) p(1) show ?thesis by (auto simp: lengthRatio_def r_def)
qed

lemma skillMatches_filter:
  "skillMatches resumeSkills jobSkills = filter (fuzzyMatch resumeSkills) jobSkills"
  by (auto simp: skillMatches_def fuzzyMatch_def set_newSet intro!: filter_cong)

lemma findMissingSkills_filter:
  "findMissingSkills resumeSkills jobSkills
     = filter (\<lambda>jobSkill. \<not> fuzzyMatch resumeSkills jobSkill) jobSkills"
  by (auto simp: findMissingSkills_def fuzzyMatch_def set_newSet intro!: filter_cong)

text \<open>
  Claim C8, amended. For all lists of resume skills and required skills, a required
  skill is counted as matched by \<^verbatim>\<open>calculateSkillMatch\<close> exactly when
  \<^verbatim>\<open>findMissingSkills\<close> does not return it, and the number of matches and the number
  of missing skills add up to the number of required skills. For a non-empty list of
  required skills the percentage is \<open>((required - missing) / required) * 100\<close> computed
  in doubles (the quotient rounded, then the product rounded); it differs from the
  number \<open>100 * (1 - missing / required)\<close> by at most \<open>1 / 2 ^ 45\<close>.
\<close>

theorem match_and_missing_rounded:
  "(\<forall>jobSkill\<in>set jobSkills.
      jobSkill \<in> set (skillMatches resumeSkills jobSkills)
        \<longleftrightarrow> jobSkill \<notin> set (findMissingSkills resumeSkills jobSkills))
   \<and> length (skillMatches resumeSkills jobSkills)
       + length (findMissingSkills resumeSkills jobSkills) = length jobSkills
   \<and> (jobSkills \<noteq> [] \<longrightarrow>
        calculateSkillMatch resumeSkills jobSkills
          = jsTimes (lengthRatio (length jobSkills
                                   - length (findMissingSkills resumeSkills jobSkills))
                                 (length jobSkills)) (Num 100)
        \<and> (\<exists>p. calculateSkillMatch resumeSkills jobSkills = Num p
               \<and> \<bar>p - 100 * (1 - of_nat (length (findMissingSkills resumeSkills jobSkills))
                                     / of_nat (length jobSkills))\<bar> \<le> 1 / 2 ^ 45))"
proof -
  let ?m = "length (skillMatches resumeSkills jobSkills)"
  let ?d = "length (findMissingSkills resumeSkills jobSkills)"
  let ?n = "length jobSkills"
  have sum: "?m + ?d = ?n"
    by (simp add: skillMatches_filter findMissingSkills_filter sum_length_filter_compl)
  then have m: "?m = ?n - ?d" by simp
  have pct: "calculateSkillMatch resumeSkills jobSkills
               = jsTimes (lengthRatio (?n - ?d) ?n) (Num 100)" if "jobSkills \<noteq> []"
    using that by (simp add: calculateSkillMatch_def m[symmetric])
  have err: "\<exists>p. calculateSkillMatch resumeSkills jobSkills = Num p
               \<and> \<bar>p - 100 * (1 - of_nat ?d / of_nat ?n)\<bar> \<le> 1 / 2 ^ 45" if ne: "jobSkills \<noteq> []"
  proof -
    from ne have n: "0 < ?n" by simp
    from sum have "(of_nat ?m :: rat) = of_nat ?n - of_nat ?d"
      by (metis add_diff_cancel_right' of_nat_add)
    with n have "(of_nat ?m :: rat) / of_nat ?n = 1 - of_nat ?d / of_nat ?n"
      by (simp add: field_simps)
    moreover from sum have "?m \<le> ?n" by simp
    ultimately show ?thesis
      using percentage_error[OF n, of ?m] ne by (simp add: calculateSkillMatch_def)
  qed
  show ?thesis
    using sum pct err by (auto simp: skillMatches_filter findMissingSkills_filter)
qed

lemma one_of_three_missing:
  "findMissingSkills [''python''] [''python'', ''docker'', ''sql''] = [''docker'', ''sql'']"
  by code_simp

lemma one_of_three_matches:
  "skillMatches [''python''] [''python'', ''docker'', ''sql''] = [''python'']"
  by code_simp

lemma third_percent:
  "jsTimes (lengthRatio 1 3) (Num 100) = Num (2345624805922133 / 70368744177664)"
proof -
  have "lengthRatio 1 3 = fl (1 / 3)" by (simp add: lengthRatio_def)
  then show ?thesis by (simp only: fl_one_third jsTimes.simps fl_third_percent)
qed

text \<open>
  Twenty-three matches of forty give 57.49999999999999, not 57.5: the rounded field is 57.
\<close>

lemma twenty_three_of_forty: "mathRound (jsTimes (lengthRatio 23 40) (Num 100)) = Num 57"
proof -
  have "lengthRatio 23 40 = fl (23 / 40)" by (simp add: lengthRatio_def)
  then have "jsTimes (lengthRatio 23 40) (Num 100) = Num (8092405580431359 / 140737488355328)"
    by (simp only: fl_twenty_three_fortieths jsTimes.simps fl_fortieths_percent)
  moreover have "\<lfloor>8092405580431359 / 140737488355328 + 1 / 2 :: rat\<rfloor> = 57"
    by (simp add: floor_eq_iff)
  ultimately show ?thesis by simp
qed

lemma one_of_three_percent:
  "calculateSkillMatch [''python''] [''python'', ''docker'', ''sql'']
     = Num (2345624805922133 / 70368744177664)"
proof -
  have m: "length (skillMatches [''python''] [''python'', ''docker'', ''sql'']) = 1"
    by (simp add: one_of_three_matches)
  have n: "length [''python'', ''docker'', ''sql''] = 3" by simp
  show ?thesis unfolding calculateSkillMatch_def m n using third_percent by simp
qed

lemma claimed_percent:
  "jsTimes (Num 100) (jsMinus (Num 1) (lengthRatio 2 3))
     = Num (4691249611844267 / 140737488355328)"
proof -
  have "lengthRatio 2 3 = fl (2 / 3)" by (simp add: lengthRatio_def)
  then show ?thesis
    by (simp only: fl_two_thirds jsMinus.simps jsNeg.simps jsPlus.simps jsTimes.simps
        diff_conv_add_uminus[symmetric] fl_one_minus fl_hundred_times)
qed

text \<open>
  Claim C8, as stated, fails in its last part. With one of three required skills
  matched, \<^verbatim>\<open>calculateSkillMatch\<close> is \<^verbatim>\<open>(1 / 3) * 100\<close> in doubles,
  33.33333333333333: this is not the number \<open>100 * (1 - 2 / 3)\<close>, and it is not the
  double 33.333333333333336 that \<^verbatim>\<open>100 * (1 - 2 / 3)\<close> gives in doubles either.
\<close>

theorem percentage_identity_counterexample:
  "calculateSkillMatch [''python''] [''python'', ''docker'', ''sql'']
     \<noteq> Num (100 * (1 - of_nat (length (findMissingSkills [''python'']
                                           [''python'', ''docker'', ''sql'']))
                        / of_nat (length [''python'', ''docker'', ''sql''])))
   \<and> calculateSkillMatch [''python''] [''python'', ''docker'', ''sql'']
     \<noteq> jsTimes (Num 100) (jsMinus (Num 1)
         (lengthRatio (length (findMissingSkills [''python''] [''python'', ''docker'', ''sql'']))
                      (length [''python'', ''docker'', ''sql''])))"
proof -
  have d: "length [''docker'', ''sql''] = 2" by simp
  have n: "length [''python'', ''docker'', ''sql''] = 3" by simp
  show ?thesis
    unfolding one_of_three_missing one_of_three_percent d n claimed_percent by simp
qed

text \<open>One resume skill against three required skills, two of them missing.\<close>

theorem match_and_missing_rounded_witness:
  "''docker'' \<in> set [''python'', ''docker'', ''sql'']
   \<and> ''docker'' \<notin> set (skillMatches [''python''] [''python'', ''docker'', ''sql''])
   \<and> ''docker'' \<in> set (findMissingSkills [''python''] [''python'', ''docker'', ''sql''])
   \<and> length (skillMatches [''python''] [''python'', ''docker'', ''sql''])
       + length (findMissingSkills [''python''] [''python'', ''docker'', ''sql'']) = 3
   \<and> [''python'', ''docker'', ''sql''] \<noteq> []
   \<and> calculateSkillMatch [''python''] [''python'', ''docker'', ''sql'']
       = jsTimes (lengthRatio (3 - 2) 3) (Num 100)"
  using match_and_missing_rounded[of "[''python'', ''docker'', ''sql'']" "[''python'']"]
    one_of_three_missing
  by (simp add: numeral_3_eq_3)

section \<open>The scenario of the Docker job\<close>

lemma dockerJob_lower:
  "toLowerCase dockerJob = ''required skills: python, sql, docker, kubernetes''"
  by (simp add: dockerJob_def toLowerCase_def char_defs)

lemma dockerJob_replaced:
  "replacePunctuation ''required skills: python, sql, docker, kubernetes''
     = ''required skills  python  sql  docker  kubernetes''"
  by (simp add: replacePunctuation_def char_defs)

lemma dockerJob_split:
  "splitWs ''required skills  python  sql  docker  kubernetes''
     = [''required'', ''skills'', ''python'', ''sql'', ''docker'', ''kubernetes'']"
  by (simp add: char_defs)

lemma dockerJob_kept:
  "filter (\<lambda>word. length word > 2 \<and> word \<notin> set stopWords)
     [''required'', ''skills'', ''python'', ''sql'', ''docker'', ''kubernetes'']
     = [''required'', ''skills'', ''python'', ''sql'', ''docker'', ''kubernetes'']"
  by (simp add: stopWords_def)

lemma dockerJob_normalized:
  "normalizeText dockerJob = ''required skills python sql docker kubernetes''"
  unfolding normalizeText_def Let_def dockerJob_lower dockerJob_replaced dockerJob_split
    dockerJob_kept
  by simp

lemma dockerJob_keywords:
  "extractKeywords dockerJob
     = [''required'', ''skills'', ''python'', ''sql'', ''docker'', ''kubernetes'']"
  unfolding extractKeywords_def dockerJob_normalized by code_simp

lemma dockerJob_section:
  "search (skillPattern skillHeading1) dockerJob = Some ''Skills: Python, SQL, Docker, Kubernetes''"
  by code_simp

lemma dockerJob_extracted:
  "extractSection ''Skills: Python, SQL, Docker, Kubernetes''
     = [''Skills: Python'', ''SQL'', ''Docker'', ''Kubernetes'']"
  by code_simp

lemma dockerJob_skills:
  "extractSkillsFromJobDescription dockerJob
     = [''skills: python'', ''sql'', ''docker'', ''kubernetes'', ''required'', ''skills'',
        ''python'']"
proof -
  have "extractSkillsFromJobDescription dockerJob
          = newSet (map toLowerCase
              ([''Skills: Python'', ''SQL'', ''Docker'', ''Kubernetes'']
               @ [''required'', ''skills'', ''python'', ''sql'', ''docker'', ''kubernetes'']))"
    unfolding extractSkillsFromJobDescription_def dockerJob_keywords dockerJob_section
    by (simp add: dockerJob_extracted)
  also have "\<dots> = [''skills: python'', ''sql'', ''docker'', ''kubernetes'', ''required'',
                      ''skills'', ''python'']"
    by code_simp
  finally show ?thesis .
qed

lemma pythonSql_skills: "getResumeSkills (Resume pythonSqlResume) = [''python'', ''sql'']"
  by code_simp

lemma docker_matches:
  "skillMatches [''python'', ''sql'']
     [''skills: python'', ''sql'', ''docker'', ''kubernetes'', ''required'', ''skills'', ''python'']
     = [''skills: python'', ''sql'', ''python'']"
  by code_simp

lemma docker_missing:
  "findMissingSkills [''python'', ''sql'']
     [''skills: python'', ''sql'', ''docker'', ''kubernetes'', ''required'', ''skills'', ''python'']
     = [''docker'', ''kubernetes'', ''required'', ''skills'']"
  by code_simp

lemma three_sevenths_percent:
  "jsTimes (lengthRatio 3 7) (Num 100) = Num (6031606643799771 / 140737488355328)"
proof -
  have "lengthRatio 3 7 = fl (3 / 7)" by (simp add: lengthRatio_def)
  then show ?thesis by (simp only: fl_three_sevenths jsTimes.simps fl_docker_percent)
qed

lemma docker_skillMatch:
  "calculateSkillMatch (getResumeSkills (Resume pythonSqlResume))
     (extractSkillsFromJobDescription dockerJob) = Num (6031606643799771 / 140737488355328)"
proof -
  have m: "length (skillMatches [''python'', ''sql'']
             [''skills: python'', ''sql'', ''docker'', ''kubernetes'', ''required'', ''skills'',
              ''python'']) = 3"
    by (simp add: docker_matches)
  have n: "length [''skills: python'', ''sql'', ''docker'', ''kubernetes'', ''required'',
                   ''skills'', ''python''] = 7" by simp
  show ?thesis
    unfolding pythonSql_skills dockerJob_skills calculateSkillMatch_def m n
    using three_sevenths_percent by simp
qed

lemma docker_result_fields:
  "missingSkills (calculateATSScoreRuleBased pythonSqlResume dockerJob)
     = findMissingSkills (getResumeSkills (Resume pythonSqlResume))
         (extractSkillsFromJobDescription dockerJob)"
  "skillMatch (calculateATSScoreRuleBased pythonSqlResume dockerJob)
     = mathRound (calculateSkillMatch (getResumeSkills (Resume pythonSqlResume))
         (extractSkillsFromJobDescription dockerJob))"
  by (simp_all add: calculateATSScoreRuleBased_def Let_def)

text \<open>
  Claim C6, as stated, fails: on the resume with the skills Python and SQL and the job
  text \<^verbatim>\<open>Required Skills: Python, SQL, Docker, Kubernetes\<close> the missing skills do
  include \<^verbatim>\<open>docker\<close> and \<^verbatim>\<open>kubernetes\<close>, but the skill match is not 50.
\<close>

theorem docker_scenario_counterexample:
  "\<not> (''docker'' \<in> set (findMissingSkills (getResumeSkills (Resume pythonSqlResume))
                          (extractSkillsFromJobDescription dockerJob))
      \<and> ''kubernetes'' \<in> set (findMissingSkills (getResumeSkills (Resume pythonSqlResume))
                          (extractSkillsFromJobDescription dockerJob))
      \<and> calculateSkillMatch (getResumeSkills (Resume pythonSqlResume))
           (extractSkillsFromJobDescription dockerJob) = Num 50)"
  by (simp add: docker_skillMatch)

text \<open>
  Claim C6, amended. On that resume and job text the missing skills include \<^verbatim>\<open>docker\<close>
  and \<^verbatim>\<open>kubernetes\<close>, and also \<^verbatim>\<open>required\<close> and \<^verbatim>\<open>skills\<close>: the keywords of the
  whole job text are added to the required skills. The skills \<^verbatim>\<open>python\<close> and \<^verbatim>\<open>sql\<close>
  are required and matched. So the skill match is a number below 50, in the value
  computed and in the rounded field of the result. What the section heading contributes
  to the required skills is left open.
\<close>

theorem docker_scenario_below_fifty:
  "''docker'' \<in> set (findMissingSkills (getResumeSkills (Resume pythonSqlResume))
                       (extractSkillsFromJobDescription dockerJob))
   \<and> ''kubernetes'' \<in> set (findMissingSkills (getResumeSkills (Resume pythonSqlResume))
                       (extractSkillsFromJobDescription dockerJob))
   \<and> ''required'' \<in> set (findMissingSkills (getResumeSkills (Resume pythonSqlResume))
                       (extractSkillsFromJobDescription dockerJob))
   \<and> ''skills'' \<in> set (findMissingSkills (getResumeSkills (Resume pythonSqlResume))
                       (extractSkillsFromJobDescription dockerJob))
   \<and> ''python'' \<in> set (skillMatches (getResumeSkills (Resume pythonSqlResume))
                       (extractSkillsFromJobDescription dockerJob))
   \<and> ''sql'' \<in> set (skillMatches (getResumeSkills (Resume pythonSqlResume))
                       (extractSkillsFromJobDescription dockerJob))
   \<and> (\<exists>q. calculateSkillMatch (getResumeSkills (Resume pythonSqlResume))
              (extractSkillsFromJobDescription dockerJob) = Num q \<and> 0 < q \<and> q < 50)
   \<and> ''docker'' \<in> set (missingSkills (calculateATSScoreRuleBased pythonSqlResume dockerJob))
   \<and> ''kubernetes'' \<in> set (missingSkills (calculateATSScoreRuleBased pythonSqlResume dockerJob))
   \<and> (\<exists>p. skillMatch (calculateATSScoreRuleBased pythonSqlResume dockerJob) = Num p
            \<and> p < 50)"
proof -
  have m: "findMissingSkills (getResumeSkills (Resume pythonSqlResume))
             (extractSkillsFromJobDescription dockerJob)
             = [''docker'', ''kubernetes'', ''required'', ''skills'']"
    unfolding pythonSql_skills dockerJob_skills by (rule docker_missing)
  have k: "skillMatches (getResumeSkills (Resume pythonSqlResume))
             (extractSkillsFromJobDescription dockerJob)
             = [''skills: python'', ''sql'', ''python'']"
    unfolding pythonSql_skills dockerJob_skills by (rule docker_matches)
  let ?q = "6031606643799771 / 140737488355328 :: rat"
  have q: "0 < ?q" "?q < 50" by simp_all
  have "of_int \<lfloor>?q + 1 / 2\<rfloor> \<le> ?q + 1 / 2" by (rule of_int_floor_le)
  then have r: "(of_int \<lfloor>?q + 1 / 2\<rfloor> :: rat) < 50" by simp
  have f: "skillMatch (calculateATSScoreRuleBased pythonSqlResume dockerJob)
             = Num (of_int \<lfloor>?q + 1 / 2\<rfloor>)"
    unfolding docker_result_fields docker_skillMatch by (simp only: mathRound.simps)
  have e1: "\<exists>q. calculateSkillMatch (getResumeSkills (Resume pythonSqlResume))
              (extractSkillsFromJobDescription dockerJob) = Num q \<and> 0 < q \<and> q < 50"
    unfolding docker_skillMatch using q by (intro exI[of _ ?q] conjI refl)
  have e2: "\<exists>p. skillMatch (calculateATSScoreRuleBased pythonSqlResume dockerJob) = Num p
              \<and> p < 50"
    unfolding f using r by (intro exI[of _ "of_int \<lfloor>?q + 1 / 2\<rfloor>"] conjI refl)
  show ?thesis
    unfolding docker_result_fields(1) m k by (intro conjI e1 e2) simp_all
qed

section \<open>The rule-based scorer on a short job title\<close>

lemma mathMax_NaN_right: "mathMax x NaN = NaN"
  by (cases x) simp_all

lemma mathMin_NaN_right: "mathMin x NaN = NaN"
  by (cases x) simp_all

lemma jsPlus_NaN_right: "jsPlus x NaN = NaN"
  by (cases x) simp_all

lemma foldl_NaN: "xs \<noteq> [] \<Longrightarrow> foldl (\<lambda>acc x. NaN) a xs = NaN"
  by (induction xs arbitrary: a) (auto, metis foldl_Nil foldl_Cons list.exhaust)

lemma alignment_NaN:
  assumes "experience data \<noteq> []" and "inferJobTitle jobDescription \<noteq> []"
    and "filter (\<lambda>w. length w > 3) (splitWs (inferJobTitle jobDescription)) = []"
  shows "calculateExperienceAlignment (Resume data) jobDescription = NaN"
  using assms
  by (simp add: calculateExperienceAlignment_def Let_def lengthRatio_def mathMax_NaN_right
      foldl_NaN)

lemma score_NaN:
  assumes "calculateExperienceAlignment (Resume data) jobDescription = NaN"
  shows "score (calculateATSScoreRuleBased data jobDescription) = NaN
         \<and> experienceAlignment (calculateATSScoreRuleBased data jobDescription) = NaN"
  using assms
  by (simp add: calculateATSScoreRuleBased_def Let_def jsPlus_NaN_right mathMax_NaN_right
      mathMin_NaN_right)

lemma seekingJob_title: "inferJobTitle seekingJob = ''a qa dev''"
  by code_simp

lemma ratio_upTo:
  assumes "xs \<noteq> []"
  shows "upTo 1 (lengthRatio (length (filter P xs)) (length xs))"
proof -
  define r :: rat where "r = of_nat (length (filter P xs)) / of_nat (length xs)"
  have "length (filter P xs) \<le> length xs" by simp
  then have "(of_nat (length (filter P xs)) :: rat) \<le> of_nat (length xs)"
    using of_nat_le_iff by blast
  moreover from assms have "(0::rat) < of_nat (length xs)" by simp
  ultimately have "0 \<le> r" "r \<le> 1"
    by (simp_all add: r_def divide_le_eq)
  from fl_bounded[OF this fl_one] obtain y where "fl r = Num y" "0 \<le> y" "y \<le> 1" by blast
  with assms show ?thesis by (simp add: lengthRatio_def r_def upTo_def)
qed

lemma times_upTo:
  assumes "upTo c a" and "0 \<le> w" and "fl (c * w) = Num d"
  shows "upTo d (jsTimes a (Num w))"
proof -
  from assms(1) obtain q where a: "a = Num q" and q: "0 \<le> q" "q \<le> c"
    by (cases a) (auto simp: upTo_def)
  from q assms(2) have "0 \<le> q * w" "q * w \<le> c * w" by (simp_all add: mult_right_mono)
  from fl_bounded[OF this assms(3)] show ?thesis by (auto simp: a upTo_def)
qed

lemma percent_upTo: "upTo 1 a \<Longrightarrow> upTo 100 (jsTimes a (Num 100))"
  using times_upTo[of 1 a 100 100] fl_hundred by simp

lemma weight_two_fifths: "upTo 100 a \<Longrightarrow> upTo 40 (jsTimes a (fl (2 / 5)))"
  unfolding fl_two_fifths using times_upTo[of 100 a _ 40] fl_forty by simp

lemma weight_three_fifths: "upTo 100 a \<Longrightarrow> upTo 60 (jsTimes a (fl (3 / 5)))"
  unfolding fl_three_fifths using times_upTo[of 100 a _ 60] fl_sixty by simp

lemma weight_one_fifth: "upTo 100 a \<Longrightarrow> upTo 20 (jsTimes a (fl (1 / 5)))"
  unfolding fl_one_fifth using times_upTo[of 100 a _ 20] fl_twenty by simp

lemma plus_upTo:
  assumes "upTo c a" and "upTo d b" and "fl (c + d) = Num e"
  shows "upTo e (jsPlus a b)"
proof -
  from assms(1) obtain p where a: "a = Num p" and p: "0 \<le> p" "p \<le> c"
    by (cases a) (auto simp: upTo_def)
  from assms(2) obtain q where b: "b = Num q" and q: "0 \<le> q" "q \<le> d"
    by (cases b) (auto simp: upTo_def)
  from p q have "0 \<le> p + q" "p + q \<le> c + d" by simp_all
  from fl_bounded[OF this assms(3)] show ?thesis by (auto simp: a b upTo_def)
qed

lemma upTo_zero: "0 \<le> c \<Longrightarrow> upTo c (Num 0)"
  by (simp add: upTo_def)

lemma mathMax_upTo: "upTo c a \<Longrightarrow> upTo c b \<Longrightarrow> upTo c (mathMax a b)"
  by (cases a; cases b) (auto simp: upTo_def)

lemma foldl_mathMax_upTo:
  "upTo c a \<Longrightarrow> \<forall>x\<in>set xs. upTo c (f x) \<Longrightarrow>
   upTo c (foldl (\<lambda>acc x. mathMax acc (f x)) a xs)"
  by (induction xs arbitrary: a) (simp_all add: mathMax_upTo)

lemma round_isPercentage:
  assumes "upTo 100 a"
  shows "isPercentage (mathRound a)"
proof -
  from assms obtain q where a: "a = Num q" and q: "0 \<le> q" "q \<le> 100"
    by (cases a) (auto simp: upTo_def)
  have "0 \<le> \<lfloor>q + 1 / 2\<rfloor>" using q by (simp add: le_floor_iff)
  moreover have "\<lfloor>q + 1 / 2\<rfloor> \<le> 100" using q by (simp add: floor_le_iff)
  ultimately have "(0::rat) \<le> of_int \<lfloor>q + 1 / 2\<rfloor>" "(of_int \<lfloor>q + 1 / 2\<rfloor> :: rat) \<le> 100"
    by (simp_all add: of_int_le_iff[of _ 100, where ?'a = rat, simplified])
  then show ?thesis unfolding a by (simp add: isPercentage_def)
qed

lemma clamp_isPercentage:
  "isPercentage x \<Longrightarrow> isPercentage (mathMin (Num 100) (mathMax (Num 0) x))"
  by (cases x) (auto simp: isPercentage_def)

lemma keywordOverlap_upTo: "upTo 100 (calculateKeywordOverlap nr nj ks)"
  by (cases "ks = []")
     (simp_all add: calculateKeywordOverlap_def Let_def upTo_zero ratio_upTo percent_upTo)

lemma skillMatch_upTo: "upTo 100 (calculateSkillMatch rs js)"
  by (cases "js = []")
     (simp_all add: calculateSkillMatch_def skillMatches_def Let_def upTo_zero ratio_upTo
        percent_upTo)

lemma alignment_upTo:
  assumes "inferJobTitle jobDescription = []
           \<or> filter (\<lambda>w. length w > 3) (splitWs (inferJobTitle jobDescription)) \<noteq> []"
  shows "upTo 100 (calculateExperienceAlignment resumeData jobDescription)"
proof (cases resumeData)
  case (Resume data)
  show ?thesis
  proof (cases "experience data = []")
    case True
    with Resume show ?thesis by (simp add: calculateExperienceAlignment_def upTo_zero)
  next
    case False
    let ?ws = "filter (\<lambda>w. length w > 3) (splitWs (inferJobTitle jobDescription))"
    let ?f = "\<lambda>exp. jsTimes (lengthRatio
                 (length (filter (\<lambda>word. includesStr (toLowerCase (exp_title exp)) word) ?ws))
                 (length ?ws)) (Num 100)"
    let ?tm = "if inferJobTitle jobDescription \<noteq> []
               then foldl (\<lambda>acc exp. mathMax acc (?f exp)) (Num 0) (experience data) else Num 0"
    let ?ks = "extractKeywords jobDescription"
    let ?km = "if length ?ks > 0
               then jsTimes (lengthRatio (length (filter (\<lambda>keyword. includesStr
                      (toLowerCase (join '' '' (concat (map (\<lambda>exp. [exp_title exp, exp_company exp]
                         @ exp_bullets exp) (experience data))))) keyword) ?ks)) (length ?ks))
                      (Num 100)
               else Num 0"
    have tm: "upTo 100 ?tm"
      using assms
      by (auto simp: upTo_zero simp del: filter_filter
          intro!: foldl_mathMax_upTo percent_upTo ratio_upTo)
    have km: "upTo 100 ?km"
      by (auto simp: upTo_zero intro!: percent_upTo ratio_upTo)
    have "calculateExperienceAlignment resumeData jobDescription
            = jsPlus (jsTimes ?tm (fl (2 / 5))) (jsTimes ?km (fl (3 / 5)))"
      using Resume False by (simp add: calculateExperienceAlignment_def Let_def)
    then show ?thesis
      using plus_upTo[OF weight_two_fifths[OF tm] weight_three_fifths[OF km], of 100] fl_hundred
      by simp
  qed
qed (simp_all add: calculateExperienceAlignment_def upTo_zero)

lemma weighted_score_upTo:
  assumes "upTo 100 a" and "upTo 100 b" and "upTo 100 c"
  shows "upTo 100 (jsPlus (jsPlus (jsTimes a (fl (2 / 5))) (jsTimes b (fl (2 / 5))))
                     (jsTimes c (fl (1 / 5))))"
proof -
  have "upTo 80 (jsPlus (jsTimes a (fl (2 / 5))) (jsTimes b (fl (2 / 5))))"
    using plus_upTo[OF weight_two_fifths[OF assms(1)] weight_two_fifths[OF assms(2)], of 80]
      fl_eighty by simp
  from plus_upTo[OF this weight_one_fifth[OF assms(3)], of 100] fl_hundred
  show ?thesis by simp
qed

text \<open>
  The range invariant holds whenever the division is defined: when no job title is
  inferred, or the inferred title has a word longer than three characters.
\<close>

lemma rule_based_range:
  assumes "inferJobTitle jobDescription = []
           \<or> filter (\<lambda>w. length w > 3) (splitWs (inferJobTitle jobDescription)) \<noteq> []"
  shows "isPercentage (score (calculateATSScoreRuleBased resumeData jobDescription))
         \<and> isPercentage (skillMatch (calculateATSScoreRuleBased resumeData jobDescription))
         \<and> isPercentage (experienceAlignment (calculateATSScoreRuleBased resumeData jobDescription))"
  using alignment_upTo[OF assms, of "Resume resumeData"]
  by (simp add: calculateATSScoreRuleBased_def Let_def round_isPercentage clamp_isPercentage
      weighted_score_upTo keywordOverlap_upTo skillMatch_upTo del: mathRound.simps)

text \<open>
  Claim C3 says that the numeric fields of the rule-based result are integers between 0
  and 100, never NaN, also when the inferred job title has no word longer than three
  characters. The code divides by the number of such words: for the job text
  \<^verbatim>\<open>We are seeking a QA dev.\<close> the title is \<^verbatim>\<open>a qa dev\<close>, the quotient is 0/0, and
  \<^verbatim>\<open>experienceAlignment\<close> and \<^verbatim>\<open>score\<close> are NaN.
\<close>

theorem short_title_gives_NaN:
  "inferJobTitle seekingJob = ''a qa dev''
   \<and> calculateExperienceAlignment (Resume qaResume) seekingJob = NaN
   \<and> experienceAlignment (calculateATSScoreRuleBased qaResume seekingJob) = NaN
   \<and> score (calculateATSScoreRuleBased qaResume seekingJob) = NaN"
proof -
  have e: "experience qaResume \<noteq> []" by (simp add: qaResume_def)
  have w: "filter (\<lambda>w. length w > 3) (splitWs (inferJobTitle seekingJob)) = []"
    unfolding seekingJob_title by (simp add: char_defs)
  have a: "calculateExperienceAlignment (Resume qaResume) seekingJob = NaN"
    using alignment_NaN[OF e _ w] by (simp add: seekingJob_title)
  from a score_NaN[OF a] seekingJob_title show ?thesis by simp
qed

section \<open>The lengths and the contents of the two lists\<close>

lemma stackJob_lower:
  "toLowerCase stackJob = ''skills: sql, aws, git, api, css, tdd, bdd, vue, java, node, rest, unix, html, sass, jest, mobx''"
  by (simp add: stackJob_def toLowerCase_def char_defs)

lemma stackJob_replaced:
  "replacePunctuation ''skills: sql, aws, git, api, css, tdd, bdd, vue, java, node, rest, unix, html, sass, jest, mobx''
     = ''skills  sql  aws  git  api  css  tdd  bdd  vue  java  node  rest  unix  html  sass  jest  mobx''"
  by (simp add: replacePunctuation_def char_defs)

lemma stackJob_split:
  "splitWs ''skills  sql  aws  git  api  css  tdd  bdd  vue  java  node  rest  unix  html  sass  jest  mobx''
     = ''skills'' # stackTerms"
  by (simp add: stackTerms_def char_defs)

lemma stackTerms_kept:
  "filter (\<lambda>word. length word > 2 \<and> word \<notin> set stopWords) (''skills'' # stackTerms)
     = ''skills'' # stackTerms"
  by (simp add: stackTerms_def stopWords_def)

lemma stackJob_normalized:
  "normalizeText stackJob = ''skills sql aws git api css tdd bdd vue java node rest unix html sass jest mobx''"
  unfolding normalizeText_def Let_def stackJob_lower stackJob_replaced stackJob_split
    stackTerms_kept
  by (simp add: stackTerms_def)

lemma stackJob_keywords: "extractKeywords stackJob = ''skills'' # stackTerms"
  unfolding extractKeywords_def stackJob_normalized by code_simp

lemma stackJob_section:
  "search (skillPattern skillHeading1) stackJob = Some ''sql, aws, git, api, css, tdd, bdd, vue, java, node, rest, unix, html, sass, jest, mobx''"
  by code_simp

lemma stackJob_extracted:
  "extractSection ''sql, aws, git, api, css, tdd, bdd, vue, java, node, rest, unix, html, sass, jest, mobx'' = stackTerms"
  by code_simp

lemma stackJob_skills: "extractSkillsFromJobDescription stackJob = stackTerms @ [''skills'']"
proof -
  have "extractSkillsFromJobDescription stackJob
          = newSet (map toLowerCase (stackTerms @ ''skills'' # stackTerms))"
    unfolding extractSkillsFromJobDescription_def stackJob_keywords stackJob_section
    by (simp add: stackJob_extracted)
  also have "\<dots> = stackTerms @ [''skills'']"
    by code_simp
  finally show ?thesis .
qed

lemma qaResume_skills: "getResumeSkills (Resume qaResume) = [''excel'']"
  by code_simp

lemma stackJob_missing:
  "findMissingSkills [''excel''] (stackTerms @ [''skills'']) = stackTerms @ [''skills'']"
  by code_simp

lemma stack_count: "length (stackTerms @ [''skills'']) = 17"
  by (simp add: stackTerms_def)

lemma stack_missing_count:
  "length (missingSkills (calculateATSScoreRuleBased qaResume stackJob)) = 17"
proof -
  have "missingSkills (calculateATSScoreRuleBased qaResume stackJob)
          = findMissingSkills (getResumeSkills (Resume qaResume))
              (extractSkillsFromJobDescription stackJob)"
    by (simp add: calculateATSScoreRuleBased_def Let_def)
  then show ?thesis
    unfolding qaResume_skills stackJob_skills stackJob_missing by (simp only: stack_count)
qed
lemma blankReply_scored:
  "calculateATSScoreWithAI blankEnv qaResume stackJob
     = Inr \<lparr> score = Num 80, skillMatch = Num 0, missingSkills = [],
             keywordImprovements = [[]], experienceAlignment = Num 0 \<rparr>"
  by code_simp

text \<open>
  A reply whose \<^verbatim>\<open>score\<close> is an object with an own key \<^verbatim>\<open>toString\<close> makes
  \<^verbatim>\<open>Number\<close> throw: the validation fails, and the facade falls back.
\<close>

lemma object_score_throws:
  "validateAnalysis env (JObject [(''score'', JObject [(''toString'', JNumber (Num 1))])])
     = Inl TypeError"
  by (simp add: validateAnalysis_def clampScore_def jsNumber_def getProp_def)

lemma dropWhile_not_blank: "dropWhile isSpace s \<noteq> [] \<Longrightarrow> \<not> blank (dropWhile isSpace s)"
  by (metis blank_def hd_dropWhile list.set_sel(1) list_all_iff)

lemma blank_rev: "blank (rev s) = blank s"
  by (simp add: blank_def list_all_iff)

lemma trim_not_blank: "trim s \<noteq> [] \<Longrightarrow> \<not> blank (trim s)"
  unfolding trim_def blank_rev using dropWhile_not_blank by simp

lemma isSpace_toLowerChar: "isSpace (toLowerChar c) = isSpace c"
  by (auto simp: toLowerChar_def isSpace_def isAsciiUpper_def isLatin1Upper_def code_char_of)

lemma blank_toLowerCase: "blank (toLowerCase s) = blank s"
  by (simp add: blank_def toLowerCase_def list_all_iff isSpace_toLowerChar)

lemma cleanWord_not_blank: "cleanWord w \<Longrightarrow> \<not> blank w"
  by (cases w) (auto simp: cleanWord_def blank_def)

lemma extractKeywords_clean:
  assumes "k \<in> set (extractKeywords s)"
  shows "cleanWord k"
proof -
  obtain ws where ws: "normalizeText s = join '' '' ws" "\<forall>w\<in>set ws. cleanWord w \<and> keepWord w"
    using normalizeText_words by blast
  show ?thesis
  proof (cases "ws = []")
    case True
    with ws assms show ?thesis using extractKeywords_blank[of s] by simp
  next
    case False
    with ws have "splitWs (normalizeText s) = ws" using splitWs_clean[of ws] by simp
    with assms extractKeywords_words[of s] have "k \<in> set ws" by auto
    with ws show ?thesis by simp
  qed
qed

lemma extractSection_not_blank: "x \<in> set (extractSection section) \<Longrightarrow> \<not> blank x"
  by (auto simp: extractSection_def dest: trim_not_blank)

lemma jobSkills_not_blank:
  assumes "x \<in> set (extractSkillsFromJobDescription jobDescription)"
  shows "\<not> blank x"
proof -
  from assms obtain y where y: "x = toLowerCase y"
    and "(\<exists>section. y \<in> set (extractSection section)) \<or> y \<in> set (extractKeywords jobDescription)"
    by (auto simp: extractSkillsFromJobDescription_def Let_def set_newSet
        split: option.splits list.splits)
  then have "\<not> blank y"
    using extractSection_not_blank extractKeywords_clean cleanWord_not_blank by blast
  with y show ?thesis by (simp add: blank_toLowerCase)
qed

text \<open>
  What does hold of the two lists: the rule-based scorer returns at most 10 keyword
  improvements and no blank string in either list; the AI scorer returns at most 15
  entries in either list and no blank string among the missing skills.
\<close>

lemma rule_based_lists:
  "length (keywordImprovements (calculateATSScoreRuleBased resumeData jobDescription)) \<le> 10
   \<and> list_all (\<lambda>x. \<not> blank x)
        (keywordImprovements (calculateATSScoreRuleBased resumeData jobDescription))
   \<and> list_all (\<lambda>x. \<not> blank x)
        (missingSkills (calculateATSScoreRuleBased resumeData jobDescription))"
proof -
  have "set (keywordImprovements (calculateATSScoreRuleBased resumeData jobDescription))
          \<subseteq> set (extractKeywords jobDescription)"
    by (auto simp: calculateATSScoreRuleBased_def Let_def generateKeywordImprovements_def
        dest: in_set_takeD)
  moreover have "set (missingSkills (calculateATSScoreRuleBased resumeData jobDescription))
          \<subseteq> set (extractSkillsFromJobDescription jobDescription)"
    by (auto simp: calculateATSScoreRuleBased_def Let_def findMissingSkills_def)
  moreover have "length (keywordImprovements (calculateATSScoreRuleBased resumeData jobDescription)) \<le> 10"
    by (simp add: calculateATSScoreRuleBased_def Let_def generateKeywordImprovements_def)
  ultimately show ?thesis
    using jobSkills_not_blank extractKeywords_clean cleanWord_not_blank
    by (auto simp: list_all_iff)
qed

lemma analysisMissingSkills_not_blank:
  "list_all (\<lambda>x. \<not> blank x) (analysisMissingSkills aiAnalysis)"
proof -
  have nb: "trim s \<noteq> [] \<Longrightarrow> \<not> blank s" for s
    by (auto simp: trim_def blank_def list_all_iff dropWhile_eq_Nil_conv dest: set_dropWhileD)
  show ?thesis
    by (auto simp: analysisMissingSkills_def list_all_iff nb split: option.splits json.splits)
qed

lemma list_all_take: "list_all P xs \<Longrightarrow> list_all P (take n xs)"
  by (auto simp: list_all_iff dest: in_set_takeD)

lemma ai_lists:
  assumes "validateAnalysis env aiAnalysis = Inr result"
  shows "length (missingSkills result) \<le> 15 \<and> length (keywordImprovements result) \<le> 15
         \<and> list_all (\<lambda>x. \<not> blank x) (missingSkills result)"
proof -
  from assms have "missingSkills result = take 15 (analysisMissingSkills aiAnalysis)"
    and "keywordImprovements result = take 15 (analysisKeywordImprovements aiAnalysis)"
    by (auto simp: validateAnalysis_def split: if_splits sum.splits)
  then show ?thesis
    using list_all_take[OF analysisMissingSkills_not_blank] by simp
qed

text \<open>
  Claim C4 says that either scorer returns at most 15 missing skills and no blank
  string in either list. The rule-based scorer returns \<^verbatim>\<open>findMissingSkills\<close> uncut:
  17 missing skills for a job text that lists 16 tools. The AI scorer filters
  \<^verbatim>\<open>keywordImprovements\<close> by type only: an empty string of the reply is returned.
\<close>

theorem list_invariants_fail:
  "length (missingSkills (calculateATSScoreRuleBased qaResume stackJob)) = 17
   \<and> calculateATSScoreWithAI blankEnv qaResume stackJob
       = Inr \<lparr> score = Num 80, skillMatch = Num 0, missingSkills = [],
               keywordImprovements = [[]], experienceAlignment = Num 0 \<rparr>"
  using stack_missing_count blankReply_scored by simp

end
